theory Spec2Isabelle
  imports Complex_Main "HOL-Library.Monad_Syntax"
begin

section \<open>PyBB: values, text and the runtime\<close>

text \<open>
  A shallow embedding of \<^verbatim>\<open>PyBB.py\<close>: the coercion function \<^verbatim>\<open>process_data\<close>,
  the \<^verbatim>\<open>Forum\<close> and \<^verbatim>\<open>User\<close> classes with their \<^verbatim>\<open>__getattr__\<close> methods, the
  constructor of \<^verbatim>\<open>Forum\<close>, the \<^verbatim>\<open>image\<close> property of \<^verbatim>\<open>User\<close>, and the attribute access
  on both classes, which reaches \<^verbatim>\<open>__getattr__\<close> for the names that are not attributes.

  A Python \<^verbatim>\<open>str\<close> is a sequence of Unicode code points, so it is modelled as a list of
  code points and not as a list of bytes. String literals of the source are written
  through \<open>ascii\<close>.
\<close>

type_synonym pystr = "nat list"

definition ascii :: "string \<Rightarrow> pystr" where
  "ascii s = map of_char s"

subsection \<open>Exceptions\<close>

text \<open>
  Every \<^verbatim>\<open>raise\<close> is a value \<open>Inl e\<close>. \<open>ValueError\<close> carries its message, which tells the
  error of the \<^verbatim>\<open>Forum\<close> constructor from the one of \<^verbatim>\<open>int()\<close>. What the collaborators
  outside this file raise (the HTTP client, the JSON parser, the image library) is kept
  apart as \<open>External\<close>.
\<close>

datatype ext_error = RequestException | JSONDecodeError | InvalidURL | ImageError

datatype error =
    ValueError string
  | TypeError
  | KeyError pystr
  | OverflowError
  | External ext_error

subsection \<open>Values\<close>

text \<open>
  \<open>datetime\<close> is a naive \<^verbatim>\<open>datetime.datetime\<close>: year, month, day, hour, minute, second,
  microsecond. A \<^verbatim>\<open>float\<close> is given by what its shortest decimal representation is made
  of, which is what \<^verbatim>\<open>repr\<close> prints: the sign, the digits and the position of the decimal
  point. A \<^verbatim>\<open>dict\<close> is a list of key-value pairs in insertion order; the keys of a
  dictionary built by \<^verbatim>\<open>json.loads\<close> are strings.
\<close>

datatype datetime = Datetime nat nat nat nat nat nat nat

datatype pyfloat = Finite bool "nat list" int | Infinity bool | NaN

datatype pyval =
    PNone
  | PBool bool
  | PInt int
  | PFloat pyfloat
  | PStr pystr
  | PList "pyval list"
  | PDict "(pystr \<times> pyval) list"
  | PDatetime datetime

datatype image = Image "nat list"

record response =
  resp_text :: pystr
  resp_content :: "nat list"

subsection \<open>The runtime around the module\<close>

text \<open>
  What the module takes from its runtime and is not defined in the repository is a
  parameter of the model:
  \<^item> \<open>unicode_numeric\<close>: the numeric type of the code points from 128 on, from the Unicode
    character database (the ASCII part is written out in \<open>numeric_type\<close>);
  \<^item> \<open>localtime\<close>: the local civil time of a number of seconds after the Unix epoch, which is
    what \<^verbatim>\<open>datetime.fromtimestamp\<close> builds;
  \<^item> \<open>url_resolve\<close>: the resolution of a non-empty reference against a non-empty base URL in
    \<^verbatim>\<open>urllib.parse.urljoin\<close>;
  \<^item> \<open>http_head\<close>, \<open>http_get\<close>: \<^verbatim>\<open>requests.head\<close> and \<^verbatim>\<open>requests.get\<close>; the headers of a
    response are given by their \<^verbatim>\<open>get\<close> method;
  \<^item> \<open>json_loads\<close>: \<^verbatim>\<open>json.loads\<close>;
  \<^item> \<open>hasPIL\<close>: the flag set by the import of PIL at the top of the module, and
    \<open>image_open\<close>: \<^verbatim>\<open>Image.open\<close> on the bytes of a file;
  \<^item> \<open>object_attribute\<close>: the names the interpreter defines on every object and in every
    class (\<^verbatim>\<open>__class__\<close>, \<^verbatim>\<open>__dict__\<close>, \<^verbatim>\<open>__doc__\<close>, \<^verbatim>\<open>__repr__\<close> and so on).
\<close>

datatype numeric_type = Decimal nat | Digit | NoDigit

record env =
  unicode_numeric :: "nat \<Rightarrow> numeric_type"
  localtime :: "rat \<Rightarrow> datetime"
  url_resolve :: "pystr \<Rightarrow> pystr \<Rightarrow> ext_error + pystr"
  http_head :: "pystr \<Rightarrow> ext_error + (pystr \<Rightarrow> pystr option)"
  http_get :: "pystr \<Rightarrow> ext_error + response"
  json_loads :: "pystr \<Rightarrow> ext_error + pyval"
  hasPIL :: bool
  image_open :: "nat list \<Rightarrow> ext_error + image"
  object_attribute :: "pystr \<Rightarrow> bool"

subsection \<open>Characters\<close>

text \<open>
  The numeric type of a code point. \<open>Decimal d\<close>: a decimal digit of value \<open>d\<close> (category Nd),
  for which \<^verbatim>\<open>str.isdigit\<close> and \<^verbatim>\<open>str.isdecimal\<close> hold, which the regular expression
  \<^verbatim>\<open>\d\<close> matches and which \<^verbatim>\<open>int()\<close> reads. \<open>Digit\<close>: a digit that is not decimal, such as
  SUPERSCRIPT TWO, for which only \<^verbatim>\<open>str.isdigit\<close> holds. In ASCII the digits are
  \<^verbatim>\<open>0\<close> to \<^verbatim>\<open>9\<close>, all decimal.
\<close>

definition numeric_type :: "env \<Rightarrow> nat \<Rightarrow> numeric_type" where
  "numeric_type E c =
     (if c < 128 then (if 48 \<le> c \<and> c \<le> 57 then Decimal (c - 48) else NoDigit)
      else unicode_numeric E c)"

definition char_isdigit :: "env \<Rightarrow> nat \<Rightarrow> bool" where
  "char_isdigit E c = (numeric_type E c \<noteq> NoDigit)"

definition char_isdecimal :: "env \<Rightarrow> nat \<Rightarrow> bool" where
  "char_isdecimal E c = (case numeric_type E c of Decimal d \<Rightarrow> True | _ \<Rightarrow> False)"

definition decimal_value :: "env \<Rightarrow> nat \<Rightarrow> nat" where
  "decimal_value E c = (case numeric_type E c of Decimal d \<Rightarrow> d | _ \<Rightarrow> 0)"

text \<open>\<^verbatim>\<open>str.isdigit()\<close>: every character is a digit and there is at least one character.\<close>

definition str_isdigit :: "env \<Rightarrow> pystr \<Rightarrow> bool" where
  "str_isdigit E s = (s \<noteq> [] \<and> list_all (char_isdigit E) s)"

text \<open>The number a text of decimal digits denotes, most significant digit first.\<close>

definition decimal_number :: "env \<Rightarrow> pystr \<Rightarrow> nat" where
  "decimal_number E s = foldl (\<lambda>acc c. 10 * acc + decimal_value E c) 0 s"

subsection \<open>Printing\<close>

fun decimal_text :: "nat \<Rightarrow> pystr" where
  "decimal_text n = (if n < 10 then [48 + n] else decimal_text (n div 10) @ [48 + n mod 10])"

declare decimal_text.simps [simp del]

definition zero_pad :: "nat \<Rightarrow> nat \<Rightarrow> pystr" where
  "zero_pad w n = replicate (w - length (decimal_text n)) 48 @ decimal_text n"

definition int_text :: "int \<Rightarrow> pystr" where
  "int_text i = (if i < 0 then 45 # decimal_text (nat (- i)) else decimal_text (nat i))"

text \<open>
  \<^verbatim>\<open>repr\<close> of a float: fixed notation when the decimal point lies in \<^verbatim>\<open>-4 < decpt <= 16\<close>,
  the exponent form otherwise.
\<close>

fun float_repr :: "pyfloat \<Rightarrow> pystr" where
  "float_repr NaN = ascii ''nan''"
| "float_repr (Infinity neg) = (if neg then ascii ''-inf'' else ascii ''inf'')"
| "float_repr (Finite neg ds decpt) =
     (if neg then [45] else []) @
     (let n = int (length ds); txt = map (\<lambda>d. 48 + d) ds in
      if - 4 < decpt \<and> decpt \<le> 16 then
        (if decpt \<le> 0 then ascii ''0.'' @ replicate (nat (- decpt)) 48 @ txt
         else if n \<le> decpt then txt @ replicate (nat (decpt - n)) 48 @ ascii ''.0''
         else take (nat decpt) txt @ [46] @ drop (nat decpt) txt)
      else
        take 1 txt @ (if 1 < n then 46 # drop 1 txt else []) @ [101] @
        (if decpt - 1 < 0 then [45] else [43]) @ zero_pad 2 (nat \<bar>decpt - 1\<bar>))"

text \<open>\<^verbatim>\<open>str\<close> of a datetime is \<^verbatim>\<open>isoformat(sep=' ')\<close>; \<^verbatim>\<open>repr\<close> is the constructor call.\<close>

fun datetime_str :: "datetime \<Rightarrow> pystr" where
  "datetime_str (Datetime y mo d h mi s us) =
     zero_pad 4 y @ [45] @ zero_pad 2 mo @ [45] @ zero_pad 2 d @ [32] @
     zero_pad 2 h @ [58] @ zero_pad 2 mi @ [58] @ zero_pad 2 s @
     (if us = 0 then [] else 46 # zero_pad 6 us)"

fun datetime_repr :: "datetime \<Rightarrow> pystr" where
  "datetime_repr (Datetime y mo d h mi s us) =
     ascii ''datetime.datetime('' @ decimal_text y @ ascii '', '' @ decimal_text mo @
     ascii '', '' @ decimal_text d @ ascii '', '' @ decimal_text h @ ascii '', '' @
     decimal_text mi @
     (if us = 0 \<and> s = 0 then []
      else if us = 0 then ascii '', '' @ decimal_text s
      else ascii '', '' @ decimal_text s @ ascii '', '' @ decimal_text us) @ ascii '')''"

text \<open>
  \<^verbatim>\<open>repr\<close> of a string: single quotes unless the string has a single quote and no double
  quote; the backslash, the quote, newline, carriage return and tab are escaped. The
  hexadecimal escapes of the other non-printable code points are left out: they stand
  inside the text of a list or a dictionary, of which \<^verbatim>\<open>process_data\<close> reads no further
  than the opening bracket.
\<close>

definition repr_quote :: "pystr \<Rightarrow> nat" where
  "repr_quote s = (if 39 \<in> set s \<and> 34 \<notin> set s then 34 else 39)"

definition escape_char :: "nat \<Rightarrow> nat \<Rightarrow> pystr" where
  "escape_char q c =
     (if c = 92 then [92, 92] else if c = q then [92, q]
      else if c = 10 then [92, 110] else if c = 13 then [92, 114]
      else if c = 9 then [92, 116] else [c])"

definition str_repr :: "pystr \<Rightarrow> pystr" where
  "str_repr s = (let q = repr_quote s in q # concat (map (escape_char q) s) @ [q])"

fun join :: "'a list \<Rightarrow> 'a list list \<Rightarrow> 'a list" where
  "join sep [] = []"
| "join sep [x] = x"
| "join sep (x # y # ys) = x @ sep @ join sep (y # ys)"

fun py_repr :: "pyval \<Rightarrow> pystr" where
  "py_repr PNone = ascii ''None''"
| "py_repr (PBool b) = (if b then ascii ''True'' else ascii ''False'')"
| "py_repr (PInt i) = int_text i"
| "py_repr (PFloat f) = float_repr f"
| "py_repr (PStr s) = str_repr s"
| "py_repr (PList xs) = [91] @ join (ascii '', '') (map py_repr xs) @ [93]"
| "py_repr (PDict kvs) =
     [123] @ join (ascii '', '')
       (map (\<lambda>kv. str_repr (fst kv) @ ascii '': '' @ py_repr (snd kv)) kvs) @ [125]"
| "py_repr (PDatetime dt) = datetime_repr dt"

text \<open>\<^verbatim>\<open>str(data)\<close>: the string itself, the \<^verbatim>\<open>isoformat\<close> of a datetime, \<^verbatim>\<open>repr\<close> otherwise.\<close>

definition py_str :: "pyval \<Rightarrow> pystr" where
  "py_str v = (case v of PStr s \<Rightarrow> s | PDatetime dt \<Rightarrow> datetime_str dt | _ \<Rightarrow> py_repr v)"

subsection \<open>\<^verbatim>\<open>int()\<close>\<close>

text \<open>
  \<^verbatim>\<open>int(data)\<close>. On a string, \<^verbatim>\<open>process_data\<close> calls it only after \<^verbatim>\<open>str(data).isdigit()\<close>,
  so on a non-empty text without sign, blank or underscore: \<^verbatim>\<open>int()\<close> reads such a text
  when all its characters are decimal digits and raises \<^verbatim>\<open>ValueError\<close> otherwise. The other
  forms \<^verbatim>\<open>int()\<close> reads (a sign, blanks around, underscores between digits) are not
  modelled.
\<close>

definition int_literal_error :: error where
  "int_literal_error = ValueError ''invalid literal for int() with base 10''"

fun py_int :: "env \<Rightarrow> pyval \<Rightarrow> error + int" where
  "py_int E (PInt i) = Inr i"
| "py_int E (PBool b) = Inr (if b then 1 else 0)"
| "py_int E (PStr s) =
     (if s \<noteq> [] \<and> list_all (char_isdecimal E) s then Inr (int (decimal_number E s))
      else Inl int_literal_error)"
| "py_int E (PFloat NaN) = Inl (ValueError ''cannot convert float NaN to integer'')"
| "py_int E (PFloat (Infinity neg)) = Inl OverflowError"
| "py_int E (PFloat (Finite neg ds decpt)) =
     (let m = int (foldl (\<lambda>acc d. 10 * acc + d) 0
                (take (nat decpt) (ds @ replicate (nat decpt) 0)))
      in Inr (if neg then - m else m))"
| "py_int E _ = Inl TypeError"

section \<open>\<^verbatim>\<open>datetime.strptime(data, "%Y-%m-%dT%H:%M:%S.%fZ")\<close>\<close>

text \<open>
  \<^verbatim>\<open>strptime\<close> raises \<^verbatim>\<open>TypeError\<close> when \<^verbatim>\<open>data\<close> is not a string. Otherwise it compiles the
  format to the regular expression
  \<^verbatim>\<open>(?P<Y>\d\d\d\d)-(?P<m>1[0-2]|0[1-9]|[1-9])-(?P<d>3[0-1]|[1-2]\d|0[1-9]|[1-9]| [1-9])T\<close>
  \<^verbatim>\<open>(?P<H>2[0-3]|[0-1]\d|\d):(?P<M>[0-5]\d|\d):(?P<S>6[0-1]|[0-5]\d|\d)\.(?P<f>[0-9]{1,6})Z\<close>
  with the flag \<^verbatim>\<open>IGNORECASE\<close>, matches it at the start of the string, and raises
  \<^verbatim>\<open>ValueError\<close> when there is no match or when text remains after the match. The groups are
  read by \<^verbatim>\<open>int()\<close>, the fraction padded with zeros on the right to six digits, and the
  datetime is built, which raises \<^verbatim>\<open>ValueError\<close> when a field is out of range.

  Each of the groups \<^verbatim>\<open>m\<close>, \<^verbatim>\<open>d\<close>, \<^verbatim>\<open>H\<close>, \<^verbatim>\<open>M\<close>, \<^verbatim>\<open>S\<close> is one or two characters long and is
  followed by a literal that none of its alternatives matches, so the group is the text
  before the first occurrence of that literal at the second or third place:
  \<open>take_field\<close>. The fraction is the longest run of ASCII digits.
\<close>

fun take_field :: "(nat \<Rightarrow> bool) \<Rightarrow> pystr \<Rightarrow> (pystr \<times> pystr) option" where
  "take_field sep (a # c # rest) =
     (if sep c then Some ([a], rest)
      else (case rest of
              [] \<Rightarrow> None
            | e # rest' \<Rightarrow> if sep e then Some ([a, c], rest') else None))"
| "take_field sep _ = None"

definition ascii_between :: "nat \<Rightarrow> nat \<Rightarrow> nat \<Rightarrow> bool" where
  "ascii_between lo hi c = (lo \<le> c \<and> c \<le> hi)"

text \<open>\<^verbatim>\<open>1[0-2]|0[1-9]|[1-9]\<close>\<close>

fun match_m :: "env \<Rightarrow> pystr \<Rightarrow> nat option" where
  "match_m E [a, b] =
     (if (a = 49 \<and> ascii_between 48 50 b) \<or> (a = 48 \<and> ascii_between 49 57 b)
      then Some (decimal_number E [a, b]) else None)"
| "match_m E [a] = (if ascii_between 49 57 a then Some (decimal_number E [a]) else None)"
| "match_m E _ = None"

text \<open>\<^verbatim>\<open>3[0-1]|[1-2]\d|0[1-9]|[1-9]| [1-9]\<close>; \<^verbatim>\<open>int()\<close> strips the blank of the last alternative.\<close>

fun match_d :: "env \<Rightarrow> pystr \<Rightarrow> nat option" where
  "match_d E [a, b] =
     (if (a = 51 \<and> ascii_between 48 49 b) \<or> (ascii_between 49 50 a \<and> char_isdecimal E b)
         \<or> (a = 48 \<and> ascii_between 49 57 b)
      then Some (decimal_number E [a, b])
      else if a = 32 \<and> ascii_between 49 57 b then Some (decimal_number E [b])
      else None)"
| "match_d E [a] = (if ascii_between 49 57 a then Some (decimal_number E [a]) else None)"
| "match_d E _ = None"

text \<open>\<^verbatim>\<open>2[0-3]|[0-1]\d|\d\<close>\<close>

fun match_H :: "env \<Rightarrow> pystr \<Rightarrow> nat option" where
  "match_H E [a, b] =
     (if (a = 50 \<and> ascii_between 48 51 b) \<or> (ascii_between 48 49 a \<and> char_isdecimal E b)
      then Some (decimal_number E [a, b]) else None)"
| "match_H E [a] = (if char_isdecimal E a then Some (decimal_number E [a]) else None)"
| "match_H E _ = None"

text \<open>\<^verbatim>\<open>[0-5]\d|\d\<close>\<close>

fun match_M :: "env \<Rightarrow> pystr \<Rightarrow> nat option" where
  "match_M E [a, b] =
     (if ascii_between 48 53 a \<and> char_isdecimal E b
      then Some (decimal_number E [a, b]) else None)"
| "match_M E [a] = (if char_isdecimal E a then Some (decimal_number E [a]) else None)"
| "match_M E _ = None"

text \<open>\<^verbatim>\<open>6[0-1]|[0-5]\d|\d\<close>\<close>

fun match_S :: "env \<Rightarrow> pystr \<Rightarrow> nat option" where
  "match_S E [a, b] =
     (if (a = 54 \<and> ascii_between 48 49 b) \<or> (ascii_between 48 53 a \<and> char_isdecimal E b)
      then Some (decimal_number E [a, b]) else None)"
| "match_S E [a] = (if char_isdecimal E a then Some (decimal_number E [a]) else None)"
| "match_S E _ = None"

text \<open>\<^verbatim>\<open>[0-9]{1,6}Z\<close> up to the end of the string, the \<^verbatim>\<open>Z\<close> in either case.\<close>

definition match_f :: "env \<Rightarrow> pystr \<Rightarrow> nat option" where
  "match_f E s =
     (let f = takeWhile (ascii_between 48 57) s; rest = dropWhile (ascii_between 48 57) s in
      if 1 \<le> length f \<and> length f \<le> 6 \<and> (rest = [90] \<or> rest = [122])
      then Some (decimal_number E (f @ replicate (6 - length f) 48)) else None)"

text \<open>The constructor \<^verbatim>\<open>datetime(year, month, day, hour, minute, second, microsecond)\<close>.\<close>

definition is_leap :: "nat \<Rightarrow> bool" where
  "is_leap y = (y mod 4 = 0 \<and> (y mod 100 \<noteq> 0 \<or> y mod 400 = 0))"

definition days_in_month :: "nat \<Rightarrow> nat \<Rightarrow> nat" where
  "days_in_month y m =
     (if m = 2 then (if is_leap y then 29 else 28)
      else if m = 4 \<or> m = 6 \<or> m = 9 \<or> m = 11 then 30 else 31)"

definition valid_datetime :: "datetime \<Rightarrow> bool" where
  "valid_datetime dt = (case dt of Datetime y mo d h mi s us \<Rightarrow>
     1 \<le> y \<and> y \<le> 9999 \<and> 1 \<le> mo \<and> mo \<le> 12 \<and> 1 \<le> d \<and> d \<le> days_in_month y mo \<and>
     h < 24 \<and> mi < 60 \<and> s < 60 \<and> us < 1000000)"

definition datetime_new :: "datetime \<Rightarrow> datetime option" where
  "datetime_new dt = (if valid_datetime dt then Some dt else None)"

text \<open>The match of the whole expression; \<open>None\<close> is the \<^verbatim>\<open>ValueError\<close>.\<close>

definition strptime_iso :: "env \<Rightarrow> pystr \<Rightarrow> datetime option" where
  "strptime_iso E s =
     (case s of
        y1 # y2 # y3 # y4 # c # r1 \<Rightarrow>
          if list_all (char_isdecimal E) [y1, y2, y3, y4] \<and> c = 45 then
            do {
              (mt, r2) \<leftarrow> take_field (\<lambda>x. x = 45) r1;
              (dt, r3) \<leftarrow> take_field (\<lambda>x. x = 84 \<or> x = 116) r2;
              (Ht, r4) \<leftarrow> take_field (\<lambda>x. x = 58) r3;
              (Mt, r5) \<leftarrow> take_field (\<lambda>x. x = 58) r4;
              (St, r6) \<leftarrow> take_field (\<lambda>x. x = 46) r5;
              us \<leftarrow> match_f E r6;
              mo \<leftarrow> match_m E mt;
              d \<leftarrow> match_d E dt;
              h \<leftarrow> match_H E Ht;
              mi \<leftarrow> match_M E Mt;
              sec \<leftarrow> match_S E St;
              datetime_new (Datetime (decimal_number E [y1, y2, y3, y4]) mo d h mi sec us)
            }
          else None
      | _ \<Rightarrow> None)"

definition strptime :: "env \<Rightarrow> pyval \<Rightarrow> error + datetime" where
  "strptime E data =
     (case data of
        PStr s \<Rightarrow> (case strptime_iso E s of
                     Some dt \<Rightarrow> Inr dt
                   | None \<Rightarrow> Inl (ValueError ''time data does not match format''))
      | _ \<Rightarrow> Inl TypeError)"

section \<open>\<^verbatim>\<open>process_data\<close>\<close>

text \<open>
  \<^verbatim>\<open>datetime.datetime.fromtimestamp(t)\<close> is the local time of \<open>t\<close> seconds after the epoch.
  The quotient \<^verbatim>\<open>int(data) / 1000\<close> is a float in Python; here it is the exact rational
  number.
\<close>

definition fromtimestamp :: "env \<Rightarrow> rat \<Rightarrow> datetime" where
  "fromtimestamp E t = localtime E t"

text \<open>
  The function as it is written: the guard on \<^verbatim>\<open>str(data)\<close>, the conversion outside of any
  \<^verbatim>\<open>try\<close>, then \<^verbatim>\<open>strptime\<close> inside \<^verbatim>\<open>try ... except (ValueError, TypeError)\<close>, then the
  value itself.
\<close>

definition process_data :: "env \<Rightarrow> pyval \<Rightarrow> error + pyval" where
  "process_data E data =
     (if str_isdigit E (py_str data) \<and> length (py_str data) = 13 then
        (case py_int E data of
           Inl e \<Rightarrow> Inl e
         | Inr n \<Rightarrow> Inr (PDatetime (fromtimestamp E (of_int n / 1000))))
      else
        (case strptime E data of
           Inr dt \<Rightarrow> Inr (PDatetime dt)
         | Inl (ValueError msg) \<Rightarrow> Inr data
         | Inl TypeError \<Rightarrow> Inr data
         | Inl e \<Rightarrow> Inl e))"

section \<open>Containers and \<^verbatim>\<open>urljoin\<close>\<close>

text \<open>
  \<^verbatim>\<open>self.data\<close> and \<^verbatim>\<open>self.config\<close> are whatever \<^verbatim>\<open>json.loads\<close> returned, so \<^verbatim>\<open>key in self.data\<close>
  and \<^verbatim>\<open>self.data[key]\<close> are modelled on every value, the key being a string: membership
  in the keys of a dictionary, in the elements of a list, as a substring of a string, and
  \<^verbatim>\<open>TypeError\<close> on a value that is not a container; the item of a dictionary, \<^verbatim>\<open>KeyError\<close>
  when the key is missing, \<^verbatim>\<open>TypeError\<close> on anything else indexed by a string.
\<close>

fun contains_text :: "pystr \<Rightarrow> pystr \<Rightarrow> bool" where
  "contains_text key [] = (key = [])"
| "contains_text key (c # s) = (take (length key) (c # s) = key \<or> contains_text key s)"

fun py_contains :: "pyval \<Rightarrow> pystr \<Rightarrow> error + bool" where
  "py_contains (PDict kvs) key = Inr (key \<in> set (map fst kvs))"
| "py_contains (PList xs) key = Inr (PStr key \<in> set xs)"
| "py_contains (PStr s) key = Inr (contains_text key s)"
| "py_contains _ key = Inl TypeError"

fun py_getitem :: "pyval \<Rightarrow> pystr \<Rightarrow> error + pyval" where
  "py_getitem (PDict kvs) key =
     (case map_of kvs key of Some v \<Rightarrow> Inr v | None \<Rightarrow> Inl (KeyError key))"
| "py_getitem _ key = Inl TypeError"

text \<open>Truth value of an object, as \<^verbatim>\<open>not url\<close> tests it.\<close>

fun py_bool :: "pyval \<Rightarrow> bool" where
  "py_bool PNone = False"
| "py_bool (PBool b) = b"
| "py_bool (PInt i) = (i \<noteq> 0)"
| "py_bool (PFloat (Finite neg ds decpt)) = (\<not> list_all (\<lambda>d. d = 0) ds)"
| "py_bool (PFloat _) = True"
| "py_bool (PStr s) = (s \<noteq> [])"
| "py_bool (PList xs) = (xs \<noteq> [])"
| "py_bool (PDict kvs) = (kvs \<noteq> [])"
| "py_bool (PDatetime dt) = True"

text \<open>
  \<^verbatim>\<open>urljoin(base, url)\<close> with a string as \<^verbatim>\<open>base\<close>: an empty base gives \<^verbatim>\<open>url\<close> back, a false
  \<^verbatim>\<open>url\<close> gives the base back, a true \<^verbatim>\<open>url\<close> that is not a string raises \<^verbatim>\<open>TypeError\<close>
  ("Cannot mix str and non-str arguments"), and two non-empty strings are resolved.
\<close>

definition urljoin :: "env \<Rightarrow> pystr \<Rightarrow> pyval \<Rightarrow> error + pyval" where
  "urljoin E base url =
     (if base = [] then Inr url
      else if \<not> py_bool url then Inr (PStr base)
      else (case url of
              PStr u \<Rightarrow> (case url_resolve E base u of
                           Inl x \<Rightarrow> Inl (External x)
                         | Inr r \<Rightarrow> Inr (PStr r))
            | _ \<Rightarrow> Inl TypeError))"

text \<open>The same on two strings, where the result is a string.\<close>

definition urljoin_str :: "env \<Rightarrow> pystr \<Rightarrow> pystr \<Rightarrow> error + pystr" where
  "urljoin_str E base u =
     (if base = [] then Inr u
      else if u = [] then Inr base
      else (case url_resolve E base u of Inl x \<Rightarrow> Inl (External x) | Inr r \<Rightarrow> Inr r))"

section \<open>\<^verbatim>\<open>Forum\<close>\<close>

text \<open>
  The attributes \<^verbatim>\<open>__init__\<close> sets. The requests the constructor sends are returned in
  order beside its result, so that what was fetched before a failure can be read off.
\<close>

datatype request = HEAD pystr | GET pystr

record Forum =
  Forum_url :: pystr
  Forum_head :: "pystr \<Rightarrow> pystr option"
  Forum_endpoint :: pystr
  Forum_api_url :: pystr
  Forum_req :: response
  Forum_data :: pyval
  Forum_configurl :: pystr
  Forum_configreq :: response
  Forum_config :: pyval
  Forum_title :: pyval

definition not_nodebb_error :: error where
  "not_nodebb_error = ValueError ''That's not a NodeBB forum''"

definition Forum_init :: "env \<Rightarrow> pystr \<Rightarrow> (error + Forum) \<times> request list" where
  "Forum_init E url =
     (case http_head E url of
        Inl x \<Rightarrow> (Inl (External x), [HEAD url])
      | Inr head \<Rightarrow>
          if head (ascii ''X-Powered-By'') \<noteq> Some (ascii ''NodeBB'')
          then (Inl not_nodebb_error, [HEAD url])
          else
           (case urljoin_str E url (ascii ''api/'') of
              Inl e \<Rightarrow> (Inl e, [HEAD url])
            | Inr endpoint \<Rightarrow>
               (case http_get E endpoint of
                  Inl x \<Rightarrow> (Inl (External x), [HEAD url, GET endpoint])
                | Inr req \<Rightarrow>
                   (case json_loads E (resp_text req) of
                      Inl x \<Rightarrow> (Inl (External x), [HEAD url, GET endpoint])
                    | Inr data \<Rightarrow>
                       (case urljoin_str E endpoint (ascii ''config'') of
                          Inl e \<Rightarrow> (Inl e, [HEAD url, GET endpoint])
                        | Inr configurl \<Rightarrow>
                           (case http_get E configurl of
                              Inl x \<Rightarrow>
                                (Inl (External x), [HEAD url, GET endpoint, GET configurl])
                            | Inr configreq \<Rightarrow>
                               (case json_loads E (resp_text configreq) of
                                  Inl x \<Rightarrow>
                                    (Inl (External x),
                                     [HEAD url, GET endpoint, GET configurl])
                                | Inr config \<Rightarrow>
                                   (case py_getitem config (ascii ''siteTitle'') of
                                      Inl e \<Rightarrow>
                                        (Inl e, [HEAD url, GET endpoint, GET configurl])
                                    | Inr title \<Rightarrow>
                                        (Inr \<lparr> Forum_url = url, Forum_head = head,
                                               Forum_endpoint = endpoint,
                                               Forum_api_url = endpoint,
                                               Forum_req = req, Forum_data = data,
                                               Forum_configurl = configurl,
                                               Forum_configreq = configreq,
                                               Forum_config = config,
                                               Forum_title = title \<rparr>,
                                         [HEAD url, GET endpoint, GET configurl])))))))))"

text \<open>
  \<^verbatim>\<open>Forum.__getattr__\<close>, the method Python calls for a name that is not an attribute of
  the object or of its class.
\<close>

definition Forum_getattr :: "env \<Rightarrow> Forum \<Rightarrow> pystr \<Rightarrow> error + pyval" where
  "Forum_getattr E self key =
     (case py_contains (Forum_data self) key of
        Inl e \<Rightarrow> Inl e
      | Inr True \<Rightarrow>
          (case py_getitem (Forum_data self) key of
             Inl e \<Rightarrow> Inl e
           | Inr out \<Rightarrow> process_data E out)
      | Inr False \<Rightarrow>
          (case py_contains (Forum_config self) key of
             Inl e \<Rightarrow> Inl e
           | Inr True \<Rightarrow>
               (case py_getitem (Forum_config self) key of
                  Inl e \<Rightarrow> Inl e
                | Inr out \<Rightarrow> process_data E out)
           | Inr False \<Rightarrow> process_data E PNone))"

section \<open>\<^verbatim>\<open>User\<close>\<close>

record User =
  User_forum :: Forum
  User_username :: pystr
  User_api_url :: pystr
  User_req :: response
  User_data :: pyval

definition User_init :: "env \<Rightarrow> Forum \<Rightarrow> pystr \<Rightarrow> (error + User) \<times> request list" where
  "User_init E forum username =
     (case urljoin_str E (Forum_endpoint forum) (ascii ''user/'' @ username) of
        Inl e \<Rightarrow> (Inl e, [])
      | Inr api_url \<Rightarrow>
         (case http_get E api_url of
            Inl x \<Rightarrow> (Inl (External x), [GET api_url])
          | Inr req \<Rightarrow>
             (case json_loads E (resp_text req) of
                Inl x \<Rightarrow> (Inl (External x), [GET api_url])
              | Inr data \<Rightarrow>
                  (Inr \<lparr> User_forum = forum, User_username = username,
                         User_api_url = api_url, User_req = req, User_data = data \<rparr>,
                   [GET api_url]))))"

definition Forum_User :: "env \<Rightarrow> Forum \<Rightarrow> pystr \<Rightarrow> (error + User) \<times> request list" where
  "Forum_User E self username = User_init E self username"

definition User_getattr :: "env \<Rightarrow> User \<Rightarrow> pystr \<Rightarrow> error + pyval" where
  "User_getattr E self key =
     (case py_contains (User_data self) key of
        Inl e \<Rightarrow> Inl e
      | Inr True \<Rightarrow>
          (case py_getitem (User_data self) key of
             Inl e \<Rightarrow> Inl e
           | Inr out \<Rightarrow> process_data E out)
      | Inr False \<Rightarrow> process_data E PNone)"

text \<open>
  The property \<^verbatim>\<open>image\<close>. \<^verbatim>\<open>self.picture\<close> is not an attribute of the object or of the
  class, so it is \<^verbatim>\<open>self.__getattr__('picture')\<close>. The result is the URL when PIL is
  missing and the opened image otherwise; \<^verbatim>\<open>requests.get\<close> on a value that is not a
  string raises without sending anything.
\<close>

datatype image_result = ImageURL pyval | OpenedImage image

definition User_image :: "env \<Rightarrow> User \<Rightarrow> (error + image_result) \<times> request list" where
  "User_image E self =
     (case User_getattr E self (ascii ''picture'') of
        Inl e \<Rightarrow> (Inl e, [])
      | Inr picture \<Rightarrow>
         (case urljoin E (Forum_endpoint (User_forum self)) picture of
            Inl e \<Rightarrow> (Inl e, [])
          | Inr imgurl \<Rightarrow>
              if \<not> hasPIL E then (Inr (ImageURL imgurl), [])
              else
               (case imgurl of
                  PStr u \<Rightarrow>
                   (case http_get E u of
                      Inl x \<Rightarrow> (Inl (External x), [GET u])
                    | Inr r \<Rightarrow>
                       (case image_open E (resp_content r) of
                          Inl x \<Rightarrow> (Inl (External x), [GET u])
                        | Inr img \<Rightarrow> (Inr (OpenedImage img), [GET u])))
                | _ \<Rightarrow> (Inl (External RequestException), []))))"

section \<open>Attribute access\<close>

text \<open>
  An attribute access \<^verbatim>\<open>obj.key\<close> looks the name up in the object and in its class first, and
  calls \<^verbatim>\<open>__getattr__\<close> only when the name is not found there. On a \<^verbatim>\<open>Forum\<close> the names found
  are the attributes \<^verbatim>\<open>__init__\<close> sets and the members of the class, on a \<^verbatim>\<open>User\<close> likewise,
  the property \<^verbatim>\<open>image\<close> among them; to these come the names the interpreter defines on
  every object. What an access returns is a value of the documents, or one of the other
  objects an attribute holds.
\<close>

datatype pyobject =
    Value pyval
  | HeadersObject "pystr \<Rightarrow> pystr option"
  | ResponseObject response
  | ForumObject Forum
  | ImageObject image
  | BoundMethod pystr
  | Builtin pystr

definition Forum_names :: "pystr list" where
  "Forum_names =
     [ascii ''url'', ascii ''head'', ascii ''endpoint'', ascii ''api_url'', ascii ''req'',
      ascii ''data'', ascii ''configurl'', ascii ''configreq'', ascii ''config'',
      ascii ''title'', ascii ''__init__'', ascii ''dump_data'', ascii ''__getattr__'',
      ascii ''User'']"

definition Forum_attribute :: "env \<Rightarrow> Forum \<Rightarrow> pystr \<Rightarrow> error + pyobject" where
  "Forum_attribute E self key =
     (if key = ascii ''url'' then Inr (Value (PStr (Forum_url self)))
      else if key = ascii ''head'' then Inr (HeadersObject (Forum_head self))
      else if key = ascii ''endpoint'' then Inr (Value (PStr (Forum_endpoint self)))
      else if key = ascii ''api_url'' then Inr (Value (PStr (Forum_api_url self)))
      else if key = ascii ''req'' then Inr (ResponseObject (Forum_req self))
      else if key = ascii ''data'' then Inr (Value (Forum_data self))
      else if key = ascii ''configurl'' then Inr (Value (PStr (Forum_configurl self)))
      else if key = ascii ''configreq'' then Inr (ResponseObject (Forum_configreq self))
      else if key = ascii ''config'' then Inr (Value (Forum_config self))
      else if key = ascii ''title'' then Inr (Value (Forum_title self))
      else if key \<in> set Forum_names then Inr (BoundMethod key)
      else if object_attribute E key then Inr (Builtin key)
      else (case Forum_getattr E self key of
              Inl e \<Rightarrow> Inl e
            | Inr v \<Rightarrow> Inr (Value v)))"

definition User_names :: "pystr list" where
  "User_names =
     [ascii ''forum'', ascii ''username'', ascii ''api_url'', ascii ''req'', ascii ''data'',
      ascii ''image'', ascii ''__init__'', ascii ''dump_data'', ascii ''__getattr__'']"

definition User_attribute ::
  "env \<Rightarrow> User \<Rightarrow> pystr \<Rightarrow> (error + pyobject) \<times> request list" where
  "User_attribute E self key =
     (if key = ascii ''forum'' then (Inr (ForumObject (User_forum self)), [])
      else if key = ascii ''username'' then (Inr (Value (PStr (User_username self))), [])
      else if key = ascii ''api_url'' then (Inr (Value (PStr (User_api_url self))), [])
      else if key = ascii ''req'' then (Inr (ResponseObject (User_req self)), [])
      else if key = ascii ''data'' then (Inr (Value (User_data self)), [])
      else if key = ascii ''image'' then
        (case User_image E self of
           (Inl e, sent) \<Rightarrow> (Inl e, sent)
         | (Inr (ImageURL v), sent) \<Rightarrow> (Inr (Value v), sent)
         | (Inr (OpenedImage img), sent) \<Rightarrow> (Inr (ImageObject img), sent))
      else if key \<in> set User_names then (Inr (BoundMethod key), [])
      else if object_attribute E key then (Inr (Builtin key), [])
      else (case User_getattr E self key of
              Inl e \<Rightarrow> (Inl e, [])
            | Inr v \<Rightarrow> (Inr (Value v), [])))"

section \<open>Composition and sample inputs\<close>

text \<open>\<^verbatim>\<open>g(f(x))\<close> where \<^verbatim>\<open>f(x)\<close> may raise.\<close>

definition and_then :: "error + 'a \<Rightarrow> ('a \<Rightarrow> error + 'b) \<Rightarrow> error + 'b" where
  "and_then r f = (case r of Inl e \<Rightarrow> Inl e | Inr x \<Rightarrow> f x)"

text \<open>
  Texts of the shape the format describes, with the six separators, the text of the
  fraction and the ending as parameters. \<^verbatim>\<open>strftime\<close> with the format of \<^verbatim>\<open>process_data\<close>
  prints \<open>iso_text 45 45 84 58 58 46 dt (zero_pad 6 us) [90]\<close>, the separators being
  \<^verbatim>\<open>-\<close>, \<^verbatim>\<open>-\<close>, \<^verbatim>\<open>T\<close>, \<^verbatim>\<open>:\<close>, \<^verbatim>\<open>:\<close>, \<^verbatim>\<open>.\<close> and the ending \<^verbatim>\<open>Z\<close>.
\<close>

fun iso_text ::
  "nat \<Rightarrow> nat \<Rightarrow> nat \<Rightarrow> nat \<Rightarrow> nat \<Rightarrow> nat \<Rightarrow> datetime \<Rightarrow> pystr \<Rightarrow> pystr \<Rightarrow> pystr" where
  "iso_text p1 p2 p3 p4 p5 p6 (Datetime y mo d h mi s us) ftext ending =
     zero_pad 4 y @ [p1] @ zero_pad 2 mo @ [p2] @ zero_pad 2 d @ [p3] @
     zero_pad 2 h @ [p4] @ zero_pad 2 mi @ [p5] @ zero_pad 2 s @ [p6] @ ftext @ ending"

text \<open>
  A runtime to evaluate the functions in: an excerpt of the Unicode database (SUPERSCRIPT
  TWO, U+00B2, is a digit that is not decimal; ARABIC-INDIC DIGIT ZERO to NINE, U+0660 to
  U+0669, are decimal digits), UTC as the local time zone, concatenation in place of URL
  resolution, one server that answers as a NodeBB forum and one that sends no
  \<^verbatim>\<open>X-Powered-By\<close> header, no PIL, and the names CPython 3.11 defines on \<^verbatim>\<open>object\<close> and in
  the namespace of a class.
\<close>

definition utc_time :: "rat \<Rightarrow> datetime" where
  "utc_time t =
     (let us = nat \<lfloor>t * 1000000\<rfloor>;
          secs = us div 1000000;
          z = secs div 86400 + 719468;
          era = z div 146097;
          doe = z mod 146097;
          yoe = (doe - doe div 1460 + doe div 36524 - doe div 146096) div 365;
          doy = doe - (365 * yoe + yoe div 4 - yoe div 100);
          mp = (5 * doy + 2) div 153;
          d = doy - (153 * mp + 2) div 5 + 1;
          m = (if mp < 10 then mp + 3 else mp - 9);
          y = yoe + era * 400 + (if m \<le> 2 then 1 else 0)
      in Datetime y m d (secs mod 86400 div 3600) (secs mod 3600 div 60) (secs mod 60)
           (us mod 1000000))"

definition interpreter_names :: "pystr list" where
  "interpreter_names =
     [ascii ''__class__'', ascii ''__delattr__'', ascii ''__dict__'', ascii ''__dir__'',
      ascii ''__doc__'', ascii ''__eq__'', ascii ''__format__'', ascii ''__ge__'',
      ascii ''__getattribute__'', ascii ''__getstate__'', ascii ''__gt__'', ascii ''__hash__'',
      ascii ''__init__'', ascii ''__init_subclass__'', ascii ''__le__'', ascii ''__lt__'',
      ascii ''__module__'', ascii ''__ne__'', ascii ''__new__'', ascii ''__reduce__'',
      ascii ''__reduce_ex__'', ascii ''__repr__'', ascii ''__setattr__'', ascii ''__sizeof__'',
      ascii ''__str__'', ascii ''__subclasshook__'', ascii ''__weakref__'']"

definition sample_env :: env where
  "sample_env =
     \<lparr> unicode_numeric =
         (\<lambda>c. if c = 178 then Digit
              else if 1632 \<le> c \<and> c \<le> 1641 then Decimal (c - 1632) else NoDigit),
       localtime = utc_time,
       url_resolve = (\<lambda>base u. Inr (base @ u)),
       http_head =
         (\<lambda>url. if url = ascii ''https://forum.example/''
                then Inr (\<lambda>name. if name = ascii ''X-Powered-By''
                                 then Some (ascii ''NodeBB'') else None)
                else Inr (\<lambda>name. None)),
       http_get =
         (\<lambda>url. Inr \<lparr> resp_text = url, resp_content = [] \<rparr>),
       json_loads =
         (\<lambda>t. if t = ascii ''https://forum.example/api/''
              then Inr (PDict [(ascii ''title'', PStr (ascii ''Home''))])
              else if t = ascii ''https://forum.example/api/config''
              then Inr (PDict [(ascii ''siteTitle'', PStr (ascii ''Example'')),
                               (ascii ''title'', PStr (ascii ''Configured''))])
              else Inl JSONDecodeError),
       hasPIL = False,
       image_open = (\<lambda>b. Inl ImageError),
       object_attribute = (\<lambda>key. key \<in> set interpreter_names) \<rparr>"

definition sample_forum :: Forum where
  "sample_forum =
     \<lparr> Forum_url = ascii ''https://forum.example/'',
       Forum_head = (\<lambda>name. if name = ascii ''X-Powered-By''
                               then Some (ascii ''NodeBB'') else None),
       Forum_endpoint = ascii ''https://forum.example/api/'',
       Forum_api_url = ascii ''https://forum.example/api/'',
       Forum_req = \<lparr> resp_text = ascii ''https://forum.example/api/'', resp_content = [] \<rparr>,
       Forum_data = PDict [(ascii ''title'', PStr (ascii ''Home''))],
       Forum_configurl = ascii ''https://forum.example/api/config'',
       Forum_configreq =
         \<lparr> resp_text = ascii ''https://forum.example/api/config'', resp_content = [] \<rparr>,
       Forum_config = PDict [(ascii ''siteTitle'', PStr (ascii ''Example'')),
                             (ascii ''title'', PStr (ascii ''Configured''))],
       Forum_title = PStr (ascii ''Example'') \<rparr>"

definition sample_user :: "pyval \<Rightarrow> User" where
  "sample_user data =
     \<lparr> User_forum = sample_forum, User_username = ascii ''alice'',
       User_api_url = ascii ''https://forum.example/api/user/alice'',
       User_req = \<lparr> resp_text = [], resp_content = [] \<rparr>,
       User_data = data \<rparr>"

section \<open>Lemmas on text, integers and the parser\<close>


subsection \<open>Digits\<close>

lemma numeric_type_ascii_digit:
  "48 \<le> c \<Longrightarrow> c \<le> 57 \<Longrightarrow> numeric_type E c = Decimal (c - 48)"
  by (simp add: numeric_type_def)

lemma numeric_type_ascii_other:
  "c < 48 \<or> (57 < c \<and> c < 128) \<Longrightarrow> numeric_type E c = NoDigit"
  by (auto simp add: numeric_type_def)

lemma digit_char_facts:
  assumes "d < 10"
  shows "char_isdecimal E (48 + d)" "char_isdigit E (48 + d)" "decimal_value E (48 + d) = d"
    "ascii_between 48 57 (48 + d)"
  using assms
  by (simp_all add: char_isdecimal_def char_isdigit_def decimal_value_def numeric_type_def
      ascii_between_def)

lemma isdecimal_isdigit: "char_isdecimal E c \<Longrightarrow> char_isdigit E c"
  by (auto simp add: char_isdecimal_def char_isdigit_def split: numeric_type.splits)

lemma ascii_between_isdecimal: "ascii_between 48 57 c \<Longrightarrow> char_isdecimal E c"
  by (simp add: ascii_between_def char_isdecimal_def numeric_type_def)

lemma not_isdigit_ascii:
  "c < 48 \<or> (57 < c \<and> c < 128) \<Longrightarrow> \<not> char_isdigit E c"
  by (simp add: char_isdigit_def numeric_type_ascii_other)

subsection \<open>Decimal text\<close>

lemma replicate_numeral: "replicate (numeral k) x = x # replicate (pred_numeral k) x"
  by (simp add: numeral_eq_Suc)

lemma decimal_text_small: "n < 10 \<Longrightarrow> decimal_text n = [48 + n]"
  by (simp add: decimal_text.simps)

lemma decimal_text_big:
  "10 \<le> n \<Longrightarrow> decimal_text n = decimal_text (n div 10) @ [48 + n mod 10]"
  by (subst decimal_text.simps) simp

lemma decimal_text_digits: "list_all (ascii_between 48 57) (decimal_text n)"
proof (induction n rule: decimal_text.induct)
  case (1 n)
  show ?case
  proof (cases "n < 10")
    case True
    then show ?thesis by (simp add: decimal_text_small ascii_between_def)
  next
    case False
    then have "list_all (ascii_between 48 57) (decimal_text (n div 10))"
      using 1 by simp
    moreover have "ascii_between 48 57 (48 + n mod 10)"
      by (simp add: ascii_between_def)
    ultimately show ?thesis using False by (simp add: decimal_text_big)
  qed
qed

lemma decimal_text_nonempty: "decimal_text n \<noteq> []"
  by (cases "n < 10") (simp_all add: decimal_text_small decimal_text_big)

lemma decimal_number_snoc:
  "decimal_number E (s @ [c]) = 10 * decimal_number E s + decimal_value E c"
  by (simp add: decimal_number_def)

lemma decimal_number_text: "decimal_number E (decimal_text n) = n"
proof (induction n rule: decimal_text.induct)
  case (1 n)
  show ?case
  proof (cases "n < 10")
    case True
    then show ?thesis
      by (simp add: decimal_text_small decimal_number_def digit_char_facts)
  next
    case False
    then have "decimal_number E (decimal_text (n div 10)) = n div 10"
      using 1 by simp
    then show ?thesis using False
      by (simp add: decimal_text_big decimal_number_snoc digit_char_facts)
  qed
qed

lemma length_decimal_text_le:
  "0 < k \<Longrightarrow> length (decimal_text n) \<le> k \<longleftrightarrow> n < 10 ^ k"
proof (induction n arbitrary: k rule: decimal_text.induct)
  case (1 n)
  show ?case
  proof (cases "n < 10")
    case True
    have "(10::nat) ^ 1 \<le> 10 ^ k" using 1(2) by (intro power_increasing) simp_all
    then have "n < 10 ^ k" using True by simp
    then show ?thesis using True 1(2) by (simp add: decimal_text_small)
  next
    case False
    show ?thesis
    proof (cases k)
      case 0
      then show ?thesis using 1(2) by simp
    next
      case (Suc j)
      show ?thesis
      proof (cases "j = 0")
        case True
        then show ?thesis using False Suc decimal_text_nonempty[of "n div 10"]
          by (simp add: decimal_text_big)
      next
        case jpos: False
        then have "length (decimal_text (n div 10)) \<le> j \<longleftrightarrow> n div 10 < 10 ^ j"
          using 1(1)[of j] False by simp
        moreover have "n div 10 < 10 ^ j \<longleftrightarrow> n < 10 ^ j * 10"
          by (simp add: div_less_iff_less_mult)
        ultimately show ?thesis using False Suc by (simp add: decimal_text_big mult.commute)
      qed
    qed
  qed
qed

lemma length_decimal_text_13:
  "length (decimal_text n) = 13 \<longleftrightarrow> 1000000000000 \<le> n \<and> n < 10000000000000"
proof -
  have a: "length (decimal_text n) \<le> 13 \<longleftrightarrow> n < 10 ^ 13"
    by (rule length_decimal_text_le) simp
  have b: "length (decimal_text n) \<le> 12 \<longleftrightarrow> n < 10 ^ 12"
    by (rule length_decimal_text_le) simp
  have "length (decimal_text n) = 13 \<longleftrightarrow>
        length (decimal_text n) \<le> 13 \<and> \<not> length (decimal_text n) \<le> 12"
    by arith
  then show ?thesis unfolding a b by auto
qed


subsection \<open>\<^verbatim>\<open>str(data)\<close> of values that are not strings or integers\<close>

lemma not_isdigit_Cons: "\<not> char_isdigit E c \<Longrightarrow> \<not> str_isdigit E (c # s)"
  by (simp add: str_isdigit_def)

lemma not_isdigit_mid: "\<not> char_isdigit E c \<Longrightarrow> \<not> str_isdigit E (a @ c # s)"
  by (simp add: str_isdigit_def)

lemma not_isdigit_float: "\<not> str_isdigit E (float_repr f)"
proof (cases f)
  case (Finite neg ds decpt)
  have d46: "\<not> char_isdigit E 46" and d101: "\<not> char_isdigit E 101" and d45: "\<not> char_isdigit E 45"
    by (simp_all add: not_isdigit_ascii)
  show ?thesis
  proof (cases neg)
    case True
    then show ?thesis using Finite d45 by (simp add: str_isdigit_def)
  next
    case False
    then show ?thesis using Finite d46 d101
      by (auto simp add: str_isdigit_def Let_def ascii_def)
  qed
next
  case (Infinity neg)
  then show ?thesis by (simp add: str_isdigit_def ascii_def not_isdigit_ascii)
next
  case NaN
  then show ?thesis by (simp add: str_isdigit_def ascii_def not_isdigit_ascii)
qed

lemma not_isdigit_datetime: "\<not> str_isdigit E (datetime_str dt)"
proof (cases dt)
  case (Datetime y mo d h mi s us)
  have "\<not> char_isdigit E 45" by (simp add: not_isdigit_ascii)
  then show ?thesis using Datetime by (simp add: str_isdigit_def)
qed

lemma not_isdigit_other:
  "\<not> str_isdigit E (py_str PNone)"
  "\<not> str_isdigit E (py_str (PBool b))"
  "\<not> str_isdigit E (py_str (PFloat f))"
  "\<not> str_isdigit E (py_str (PList xs))"
  "\<not> str_isdigit E (py_str (PDict kvs))"
  "\<not> str_isdigit E (py_str (PDatetime dt))"
  by (simp_all add: py_str_def not_isdigit_float not_isdigit_datetime)
     (simp_all add: str_isdigit_def ascii_def not_isdigit_ascii)

lemma strptime_not_str:
  "strptime E PNone = Inl TypeError"
  "strptime E (PBool b) = Inl TypeError"
  "strptime E (PInt i) = Inl TypeError"
  "strptime E (PFloat f) = Inl TypeError"
  "strptime E (PList xs) = Inl TypeError"
  "strptime E (PDict kvs) = Inl TypeError"
  "strptime E (PDatetime dt) = Inl TypeError"
  by (simp_all add: strptime_def)

lemma process_data_other:
  "process_data E PNone = Inr PNone"
  "process_data E (PBool b) = Inr (PBool b)"
  "process_data E (PFloat f) = Inr (PFloat f)"
  "process_data E (PList xs) = Inr (PList xs)"
  "process_data E (PDict kvs) = Inr (PDict kvs)"
  "process_data E (PDatetime dt) = Inr (PDatetime dt)"
  by (simp_all add: process_data_def not_isdigit_other strptime_not_str)

subsection \<open>Integers\<close>

lemma isdigit_decimal_text: "str_isdigit E (decimal_text n)"
proof -
  have "list_all (char_isdigit E) (decimal_text n)"
    using decimal_text_digits[of n]
    by (auto simp add: list_all_iff intro: isdecimal_isdigit ascii_between_isdecimal)
  then show ?thesis by (simp add: str_isdigit_def decimal_text_nonempty)
qed

lemma isdecimal_decimal_text: "list_all (char_isdecimal E) (decimal_text n)"
  using decimal_text_digits[of n]
  by (auto simp add: list_all_iff intro: ascii_between_isdecimal)

lemma int_guard:
  "str_isdigit E (py_str (PInt i)) \<and> length (py_str (PInt i)) = 13 \<longleftrightarrow>
   1000000000000 \<le> i \<and> i < 10000000000000"
proof (cases "i < 0")
  case True
  then show ?thesis
    by (simp add: py_str_def int_text_def str_isdigit_def not_isdigit_ascii)
next
  case False
  then have "py_str (PInt i) = decimal_text (nat i)"
    by (simp add: py_str_def int_text_def)
  then show ?thesis using False
    by (simp add: isdigit_decimal_text length_decimal_text_13) linarith
qed

lemma process_data_int:
  "process_data E (PInt i) =
     (if 1000000000000 \<le> i \<and> i < 10000000000000
      then Inr (PDatetime (fromtimestamp E (of_int i / 1000))) else Inr (PInt i))"
  using int_guard[of E i] by (simp add: process_data_def strptime_not_str)

subsection \<open>Strings\<close>

lemma process_data_str_guard:
  assumes "str_isdigit E s" "length s = 13"
  shows "process_data E (PStr s) =
     (if list_all (char_isdecimal E) s
      then Inr (PDatetime (fromtimestamp E (of_int (int (decimal_number E s)) / 1000)))
      else Inl int_literal_error)"
  using assms by (auto simp add: process_data_def py_str_def str_isdigit_def)

lemma process_data_str_no_guard:
  assumes "\<not> (str_isdigit E s \<and> length s = 13)"
  shows "process_data E (PStr s) =
     (case strptime_iso E s of Some dt \<Rightarrow> Inr (PDatetime dt) | None \<Rightarrow> Inr (PStr s))"
  using assms by (auto simp add: process_data_def py_str_def strptime_def split: option.splits)


subsection \<open>Zero-padded fields\<close>

lemma zero_pad_1: "n < 10 \<Longrightarrow> zero_pad (Suc 0) n = [48 + n]"
  by (simp add: zero_pad_def decimal_text_small)

lemma zero_pad_step: "0 < w \<Longrightarrow> zero_pad (Suc w) n = zero_pad w (n div 10) @ [48 + n mod 10]"
proof (cases "n < 10")
  case True
  assume "0 < w"
  then obtain v where w: "w = Suc v" by (cases w) simp_all
  have "replicate v (48::nat) @ [48] = replicate (Suc v) 48"
    by (simp add: replicate_append_same)
  then show ?thesis using True w by (simp add: zero_pad_def decimal_text_small)
next
  case False
  then show ?thesis by (simp add: zero_pad_def decimal_text_big)
qed

lemma zero_pad_2: "n < 100 \<Longrightarrow> zero_pad 2 n = [48 + n div 10, 48 + n mod 10]"
proof -
  assume "n < 100"
  then have "n div 10 < 10" by simp
  moreover have "zero_pad 2 n = zero_pad (Suc (Suc 0)) n"
    by (rule arg_cong[where f = "\<lambda>w. zero_pad w n"]) simp
  ultimately show ?thesis by (simp add: zero_pad_step zero_pad_1)
qed

lemma zero_pad_4:
  "n < 10000 \<Longrightarrow>
   zero_pad 4 n = [48 + n div 1000, 48 + n div 100 mod 10, 48 + n div 10 mod 10, 48 + n mod 10]"
proof -
  assume n: "n < 10000"
  then have a: "n div 10 div 10 div 10 < 10" by simp
  have e: "n div 10 div 10 div 10 = n div 1000" "n div 10 div 10 = n div 100"
    by (simp_all add: div_mult2_eq[symmetric])
  have "zero_pad 4 n = zero_pad (Suc (Suc (Suc (Suc 0)))) n"
    by (rule arg_cong[where f = "\<lambda>w. zero_pad w n"]) simp
  then have "zero_pad 4 n = zero_pad (Suc 0) (n div 10 div 10 div 10) @
      [48 + n div 10 div 10 mod 10, 48 + n div 10 mod 10, 48 + n mod 10]"
    by (simp add: zero_pad_step)
  then show ?thesis using a by (simp add: zero_pad_1 e)
qed

lemma zero_pad_digits: "list_all (ascii_between 48 57) (zero_pad w n)"
  using decimal_text_digits[of n] by (auto simp add: zero_pad_def list_all_iff ascii_between_def)

lemma length_zero_pad: "n < 10 ^ w \<Longrightarrow> 0 < w \<Longrightarrow> length (zero_pad w n) = w"
  using length_decimal_text_le[of w n] by (simp add: zero_pad_def)

lemma decimal_number_zeros: "foldl (\<lambda>acc c. 10 * acc + decimal_value E c) 0 (replicate k 48) = 0"
  by (induction k) (simp_all add: decimal_value_def numeric_type_def)

lemma decimal_number_zero_pad: "decimal_number E (zero_pad w n) = n"
  using decimal_number_text[of E n]
  by (simp add: zero_pad_def decimal_number_def decimal_number_zeros)

lemma decimal_number_2: "n < 100 \<Longrightarrow> decimal_number E [48 + n div 10, 48 + n mod 10] = n"
  using decimal_number_zero_pad[of E 2 n] by (simp add: zero_pad_2)

lemma decimal_number_4:
  "n < 10000 \<Longrightarrow>
   decimal_number E [48 + n div 1000, 48 + n div 100 mod 10, 48 + n div 10 mod 10, 48 + n mod 10] = n"
  using decimal_number_zero_pad[of E 4 n] by (simp add: zero_pad_4)

subsection \<open>The groups of the expression\<close>

lemma take_field_length:
  "take_field sep s = Some (f, r) \<Longrightarrow> length s = length f + 1 + length r \<and> 1 \<le> length f"
  by (cases "(sep, s)" rule: take_field.cases) (auto split: if_splits list.splits)

lemma take_field_two:
  "\<not> sep b \<Longrightarrow> take_field sep (a # b # c # r) = (if sep c then Some ([a, b], r) else None)"
  by simp

lemma match_f_length: "match_f E s = Some us \<Longrightarrow> 2 \<le> length s"
proof -
  assume a: "match_f E s = Some us"
  let ?P = "ascii_between 48 57"
  have "length s = length (takeWhile ?P s) + length (dropWhile ?P s)"
    by (metis length_append takeWhile_dropWhile_id)
  moreover from a have "1 \<le> length (takeWhile ?P s)" "length (dropWhile ?P s) = 1"
    by (auto simp add: match_f_def Let_def split: if_splits)
  ultimately show ?thesis by simp
qed

lemma match_f_digits:
  assumes "list_all (ascii_between 48 57) F" "R = [] \<or> \<not> ascii_between 48 57 (hd R)"
  shows "match_f E (F @ R) =
     (if 1 \<le> length F \<and> length F \<le> 6 \<and> (R = [90] \<or> R = [122])
      then Some (decimal_number E (F @ replicate (6 - length F) 48)) else None)"
proof -
  let ?P = "ascii_between 48 57"
  have "takeWhile ?P (F @ R) = F \<and> dropWhile ?P (F @ R) = R"
  proof (cases R)
    case Nil
    then show ?thesis using assms(1) by (simp add: list_all_iff)
  next
    case (Cons z r)
    then have "\<not> ?P z" using assms(2) by simp
    then show ?thesis using Cons assms(1)
      by (simp add: list_all_iff takeWhile_append2 dropWhile_append2)
  qed
  then show ?thesis by (simp add: match_f_def)
qed

lemma match_m_pad: "1 \<le> n \<Longrightarrow> n \<le> 12 \<Longrightarrow> match_m E [48 + n div 10, 48 + n mod 10] = Some n"
proof -
  assume a: "1 \<le> n" "n \<le> 12"
  then have v: "decimal_number E [48 + n div 10, 48 + n mod 10] = n"
    by (simp add: decimal_number_2)
  from a have "(n div 10 = 1 \<and> n mod 10 \<le> 2) \<or> (n div 10 = 0 \<and> 1 \<le> n mod 10)"
    by presburger
  then show ?thesis using v by (auto simp add: ascii_between_def)
qed

lemma match_d_pad: "1 \<le> n \<Longrightarrow> n \<le> 31 \<Longrightarrow> match_d E [48 + n div 10, 48 + n mod 10] = Some n"
proof -
  assume a: "1 \<le> n" "n \<le> 31"
  then have v: "decimal_number E [48 + n div 10, 48 + n mod 10] = n"
    by (simp add: decimal_number_2)
  have m: "n mod 10 < 10" by simp
  from a have "(n div 10 = 3 \<and> n mod 10 \<le> 1) \<or> (n div 10 = 1 \<or> n div 10 = 2) \<or>
      (n div 10 = 0 \<and> 1 \<le> n mod 10)"
    by presburger
  then show ?thesis using v digit_char_facts(1)[OF m, of E]
    by (auto simp add: ascii_between_def)
qed

lemma match_H_pad: "n < 24 \<Longrightarrow> match_H E [48 + n div 10, 48 + n mod 10] = Some n"
proof -
  assume a: "n < 24"
  then have v: "decimal_number E [48 + n div 10, 48 + n mod 10] = n"
    by (simp add: decimal_number_2)
  have m: "n mod 10 < 10" by simp
  from a have "(n div 10 = 2 \<and> n mod 10 \<le> 3) \<or> (n div 10 = 0 \<or> n div 10 = 1)"
    by presburger
  then show ?thesis using v digit_char_facts(1)[OF m, of E]
    by (auto simp add: ascii_between_def)
qed

lemma match_M_pad: "n < 60 \<Longrightarrow> match_M E [48 + n div 10, 48 + n mod 10] = Some n"
proof -
  assume a: "n < 60"
  then have v: "decimal_number E [48 + n div 10, 48 + n mod 10] = n"
    by (simp add: decimal_number_2)
  have m: "n mod 10 < 10" by simp
  from a have "n div 10 \<le> 5" by presburger
  then show ?thesis using v digit_char_facts(1)[OF m, of E]
    by (auto simp add: ascii_between_def)
qed

lemma match_S_pad: "n < 60 \<Longrightarrow> match_S E [48 + n div 10, 48 + n mod 10] = Some n"
proof -
  assume a: "n < 60"
  then have v: "decimal_number E [48 + n div 10, 48 + n mod 10] = n"
    by (simp add: decimal_number_2)
  have m: "n mod 10 < 10" by simp
  from a have "n div 10 \<le> 5" by presburger
  then show ?thesis using v digit_char_facts(1)[OF m, of E]
    by (auto simp add: ascii_between_def)
qed


lemma strptime_iso_fields:
  assumes "strptime_iso E s = Some dt"
  obtains y1 y2 y3 y4 r1 mt r2 dd r3 Ht r4 Mt r5 St r6 us where
    "s = y1 # y2 # y3 # y4 # 45 # r1"
    "take_field (\<lambda>x. x = 45) r1 = Some (mt, r2)"
    "take_field (\<lambda>x. x = 84 \<or> x = 116) r2 = Some (dd, r3)"
    "take_field (\<lambda>x. x = 58) r3 = Some (Ht, r4)"
    "take_field (\<lambda>x. x = 58) r4 = Some (Mt, r5)"
    "take_field (\<lambda>x. x = 46) r5 = Some (St, r6)"
    "match_f E r6 = Some us"
  using assms
  by (auto simp add: strptime_iso_def bind_eq_Some_conv split: list.splits if_splits)

lemma strptime_iso_min_length:
  assumes "strptime_iso E s = Some dt"
  shows "17 \<le> length s"
proof -
  from assms obtain y1 y2 y3 y4 r1 mt r2 dd r3 Ht r4 Mt r5 St r6 us where f:
    "s = y1 # y2 # y3 # y4 # 45 # r1"
    "take_field (\<lambda>x. x = 45) r1 = Some (mt, r2)"
    "take_field (\<lambda>x. x = 84 \<or> x = 116) r2 = Some (dd, r3)"
    "take_field (\<lambda>x. x = 58) r3 = Some (Ht, r4)"
    "take_field (\<lambda>x. x = 58) r4 = Some (Mt, r5)"
    "take_field (\<lambda>x. x = 46) r5 = Some (St, r6)"
    "match_f E r6 = Some us"
    by (rule strptime_iso_fields)
  have "length r1 \<ge> 2 + length r2" using take_field_length[OF f(2)] by simp
  moreover have "length r2 \<ge> 2 + length r3" using take_field_length[OF f(3)] by simp
  moreover have "length r3 \<ge> 2 + length r4" using take_field_length[OF f(4)] by simp
  moreover have "length r4 \<ge> 2 + length r5" using take_field_length[OF f(5)] by simp
  moreover have "length r5 \<ge> 2 + length r6" using take_field_length[OF f(6)] by simp
  moreover have "length r6 \<ge> 2" using match_f_length[OF f(7)] .
  ultimately show ?thesis using f(1) by simp
qed

lemma strptime_iso_shape:
  assumes "list_all (char_isdecimal E) [y1, y2, y3, y4]"
    and "m2 \<noteq> 45" "d2 \<noteq> 84" "d2 \<noteq> 116" "h2 \<noteq> 58" "i2 \<noteq> 58" "s2 \<noteq> 46"
  shows "strptime_iso E
      ([y1, y2, y3, y4] @ [p1] @ [m1, m2] @ [p2] @ [d1, d2] @ [p3] @ [h1, h2] @ [p4] @
       [i1, i2] @ [p5] @ [s1, s2] @ [p6] @ R) =
     (if p1 = 45 \<and> p2 = 45 \<and> (p3 = 84 \<or> p3 = 116) \<and> p4 = 58 \<and> p5 = 58 \<and> p6 = 46
      then do {
             us \<leftarrow> match_f E R;
             mo \<leftarrow> match_m E [m1, m2];
             d \<leftarrow> match_d E [d1, d2];
             h \<leftarrow> match_H E [h1, h2];
             mi \<leftarrow> match_M E [i1, i2];
             sec \<leftarrow> match_S E [s1, s2];
             datetime_new (Datetime (decimal_number E [y1, y2, y3, y4]) mo d h mi sec us)
           }
      else None)"
  using assms by (simp add: strptime_iso_def)

section \<open>The sample runtime\<close>

lemma sample_env_sel:
  "unicode_numeric sample_env =
     (\<lambda>c. if c = 178 then Digit
          else if 1632 \<le> c \<and> c \<le> 1641 then Decimal (c - 1632) else NoDigit)"
  "localtime sample_env = utc_time"
  "hasPIL sample_env = False"
  "url_resolve sample_env = (\<lambda>base u. Inr (base @ u))"
  by (simp_all add: sample_env_def)

lemma utc_time_2021: "utc_time (1609459200000 / 1000) = Datetime 2021 1 1 0 0 0 0"
  unfolding utc_time_def by (simp cong: let_weak_cong)

lemma fromtimestamp_2021:
  "fromtimestamp sample_env (of_int 1609459200000 / 1000) = Datetime 2021 1 1 0 0 0 0"
  using utc_time_2021 by (simp add: fromtimestamp_def sample_env_sel)

lemmas eval_simps = py_str_def str_isdigit_def char_isdigit_def char_isdecimal_def
  numeric_type_def decimal_value_def decimal_number_def strptime_def strptime_iso_def
  match_f_def ascii_between_def datetime_new_def valid_datetime_def days_in_month_def
  is_leap_def ascii_def int_text_def zero_pad_def
  replicate_numeral decimal_text_small decimal_text_big



section \<open>Claims on \<^verbatim>\<open>process_data\<close>\<close>



text \<open>
  C10. The guard tests \<^verbatim>\<open>str(data)\<close>, so an integer from \<open>10\<^sup>1\<^sup>2\<close> up to \<open>10\<^sup>1\<^sup>3 - 1\<close>, whose
  decimal representation has thirteen digits, is converted to the datetime of that many
  milliseconds after the epoch, the same result as for the string of its digits.
\<close>

theorem process_data_native_int:
  assumes "1000000000000 \<le> n" "n < 10000000000000"
  shows "process_data E (PInt n) = Inr (PDatetime (fromtimestamp E (of_int n / 1000))) \<and>
         process_data E (PStr (py_str (PInt n))) = process_data E (PInt n)"
proof -
  have a: "process_data E (PInt n) = Inr (PDatetime (fromtimestamp E (of_int n / 1000)))"
    using assms by (simp add: process_data_int)
  have s: "py_str (PInt n) = decimal_text (nat n)"
    using assms by (simp add: py_str_def int_text_def)
  have "length (decimal_text (nat n)) = 13"
    using assms by (simp add: length_decimal_text_13) linarith
  then have "process_data E (PStr (decimal_text (nat n))) =
      Inr (PDatetime (fromtimestamp E (of_int (int (decimal_number E (decimal_text (nat n)))) / 1000)))"
    using process_data_str_guard[of E "decimal_text (nat n)"]
    by (simp add: isdigit_decimal_text isdecimal_decimal_text)
  then show ?thesis using a s assms by (simp add: decimal_number_text)
qed

theorem process_data_native_int_witness:
  "process_data sample_env (PInt 1609459200000) = Inr (PDatetime (Datetime 2021 1 1 0 0 0 0)) \<and>
   process_data sample_env (PStr (ascii ''1609459200000'')) =
   process_data sample_env (PInt 1609459200000)"
proof -
  have t: "py_str (PInt 1609459200000) = ascii ''1609459200000''"
    by (simp add: eval_simps)
  show ?thesis
    using process_data_native_int[of 1609459200000 sample_env] fromtimestamp_2021
    by (simp add: t)
qed

text \<open>
  C8. \<^verbatim>\<open>process_data\<close> raises on a string of thirteen SUPERSCRIPT TWO characters:
  \<^verbatim>\<open>str.isdigit\<close> holds for it and its length is 13, so \<^verbatim>\<open>int(data)\<close> is called, outside
  of the \<^verbatim>\<open>try\<close>, and raises \<^verbatim>\<open>ValueError\<close>.
\<close>

theorem process_data_raises_on_superscript_digits:
  "process_data sample_env (PStr (replicate 13 178)) = Inl int_literal_error"
  by (simp add: process_data_def eval_simps sample_env_sel)

text \<open>
  C2. A string of twelve ASCII digits followed by SUPERSCRIPT TWO consists of digits only, as
  \<^verbatim>\<open>str.isdigit\<close> tests it, and has length 13, and \<^verbatim>\<open>process_data\<close> returns no timestamp
  for it: it raises the \<^verbatim>\<open>ValueError\<close> of \<^verbatim>\<open>int()\<close>.
\<close>

theorem process_data_digit_text_without_timestamp:
  "str_isdigit sample_env (ascii ''160945920000'' @ [178]) \<and>
   length (ascii ''160945920000'' @ [178]) = 13 \<and>
   process_data sample_env (PStr (ascii ''160945920000'' @ [178])) = Inl int_literal_error"
  by (simp add: process_data_def eval_simps sample_env_sel)

section \<open>Claims on \<^verbatim>\<open>Forum\<close> and \<^verbatim>\<open>User\<close>\<close>

lemma py_contains_dict:
  "py_contains (PDict kvs) key = Inr (map_of kvs key \<noteq> None)"
  by (simp add: map_of_eq_None_iff)

lemma urljoin_str_error: "urljoin_str E base u = Inl e \<Longrightarrow> \<exists>x. e = External x"
  by (auto simp add: urljoin_str_def split: if_splits sum.splits)

lemma py_getitem_error: "py_getitem v key = Inl e \<Longrightarrow> e = TypeError \<or> e = KeyError key"
  by (cases v) (auto split: option.splits)

text \<open>
  The body of \<^verbatim>\<open>__getattr__\<close>: a key of \<^verbatim>\<open>self.data\<close> gives the coercion of its value there,
  whatever \<^verbatim>\<open>self.config\<close> holds, and a key of no document gives \<^verbatim>\<open>None\<close>.
\<close>

lemma Forum_getattr_in_data:
  assumes "Forum_data self = PDict kvs" and "map_of kvs key = Some v"
  shows "Forum_getattr E self key = process_data E v \<and>
         Forum_getattr E (self\<lparr>Forum_config := c\<rparr>) key = process_data E v"
proof -
  have "key \<in> fst ` set kvs"
    using assms(2) by (metis map_of_eq_None_iff option.distinct(1))
  then show ?thesis using assms by (simp add: Forum_getattr_def)
qed

lemma getattr_absent_key:
  "(Forum_data f = PDict kvs \<and> Forum_config f = PDict cfg \<and>
    key \<notin> set (map fst kvs) \<and> key \<notin> set (map fst cfg)
      \<longrightarrow> Forum_getattr E f key = Inr PNone) \<and>
   (User_data u = PDict ukvs \<and> key \<notin> set (map fst ukvs)
      \<longrightarrow> User_getattr E u key = Inr PNone)"
  by (simp add: Forum_getattr_def User_getattr_def process_data_other)

subsection \<open>Names that are not attributes\<close>

lemma Forum_attribute_fallback:
  assumes "key \<notin> set Forum_names" and "\<not> object_attribute E key"
  shows "Forum_attribute E self key =
     (case Forum_getattr E self key of Inl e \<Rightarrow> Inl e | Inr v \<Rightarrow> Inr (Value v))"
proof -
  have "key \<noteq> ascii ''url''" "key \<noteq> ascii ''head''" "key \<noteq> ascii ''endpoint''"
    "key \<noteq> ascii ''api_url''" "key \<noteq> ascii ''req''" "key \<noteq> ascii ''data''"
    "key \<noteq> ascii ''configurl''" "key \<noteq> ascii ''configreq''" "key \<noteq> ascii ''config''"
    "key \<noteq> ascii ''title''"
    using assms(1) by (auto simp add: Forum_names_def)
  then show ?thesis using assms by (simp add: Forum_attribute_def)
qed

lemma User_attribute_fallback:
  assumes "key \<notin> set User_names" and "\<not> object_attribute E key"
  shows "User_attribute E self key =
     (case User_getattr E self key of Inl e \<Rightarrow> (Inl e, []) | Inr v \<Rightarrow> (Inr (Value v), []))"
proof -
  have "key \<noteq> ascii ''forum''" "key \<noteq> ascii ''username''" "key \<noteq> ascii ''api_url''"
    "key \<noteq> ascii ''req''" "key \<noteq> ascii ''data''" "key \<noteq> ascii ''image''"
    using assms(1) by (auto simp add: User_names_def)
  then show ?thesis using assms by (simp add: User_attribute_def)
qed

lemma sample_object_attribute:
  "object_attribute sample_env = (\<lambda>key. key \<in> set interpreter_names)"
  by (simp add: sample_env_def)

lemma sample_plain_names:
  "ascii ''language'' \<notin> set Forum_names" "\<not> object_attribute sample_env (ascii ''language'')"
  "ascii ''missing'' \<notin> set Forum_names" "ascii ''missing'' \<notin> set User_names"
  "\<not> object_attribute sample_env (ascii ''missing'')"
  by (simp_all add: sample_object_attribute Forum_names_def User_names_def
      interpreter_names_def ascii_def)

text \<open>
  C4. The claim as stated fails: \<^verbatim>\<open>title\<close> is in the root API document and in the
  configuration document of the sample forum, and \<^verbatim>\<open>forum.title\<close> is neither the value of the
  root API document nor found through \<^verbatim>\<open>__getattr__\<close>: it is the attribute that \<^verbatim>\<open>__init__\<close>
  set from \<^verbatim>\<open>config['siteTitle']\<close>.
\<close>

theorem Forum_title_is_own_attribute:
  "py_getitem (Forum_data sample_forum) (ascii ''title'') = Inr (PStr (ascii ''Home'')) \<and>
   py_getitem (Forum_config sample_forum) (ascii ''title'') =
     Inr (PStr (ascii ''Configured'')) \<and>
   process_data sample_env (PStr (ascii ''Home'')) = Inr (PStr (ascii ''Home'')) \<and>
   Forum_attribute sample_env sample_forum (ascii ''title'') =
     Inr (Value (PStr (ascii ''Example'')))"
proof -
  have a: "py_getitem (Forum_data sample_forum) (ascii ''title'') = Inr (PStr (ascii ''Home''))"
    by (simp add: sample_forum_def)
  have b: "py_getitem (Forum_config sample_forum) (ascii ''title'') =
     Inr (PStr (ascii ''Configured''))"
    by (simp add: sample_forum_def ascii_def)
  have c: "process_data sample_env (PStr (ascii ''Home'')) = Inr (PStr (ascii ''Home''))"
    by (simp add: process_data_def eval_simps)
  have n: "ascii ''title'' \<noteq> ascii ''url''" "ascii ''title'' \<noteq> ascii ''head''"
    "ascii ''title'' \<noteq> ascii ''endpoint''" "ascii ''title'' \<noteq> ascii ''api_url''"
    "ascii ''title'' \<noteq> ascii ''req''" "ascii ''title'' \<noteq> ascii ''data''"
    "ascii ''title'' \<noteq> ascii ''configurl''" "ascii ''title'' \<noteq> ascii ''configreq''"
    "ascii ''title'' \<noteq> ascii ''config''"
    by (simp_all add: ascii_def)
  have d: "Forum_attribute sample_env sample_forum (ascii ''title'') =
     Inr (Value (PStr (ascii ''Example'')))"
    by (simp add: Forum_attribute_def n) (simp add: sample_forum_def)
  show ?thesis using a b c d by (intro conjI)
qed

text \<open>
  C4, amended. For a key that names no attribute of the \<^verbatim>\<open>Forum\<close> object or of its class and
  is in the root API document \<^verbatim>\<open>self.data\<close>, the access \<^verbatim>\<open>forum.key\<close> gives the coercion of
  \<^verbatim>\<open>self.data[key]\<close>, whatever \<^verbatim>\<open>self.config\<close> holds: the result is the same for any other
  configuration document, with or without the key.
\<close>

theorem Forum_attribute_prefers_data:
  assumes "key \<notin> set Forum_names" and "\<not> object_attribute E key"
    and "Forum_data self = PDict kvs" and "map_of kvs key = Some v"
  shows "Forum_attribute E self key = and_then (process_data E v) (\<lambda>x. Inr (Value x)) \<and>
         Forum_attribute E (self\<lparr>Forum_config := c\<rparr>) key =
           and_then (process_data E v) (\<lambda>x. Inr (Value x))"
proof -
  have "Forum_getattr E self key = process_data E v"
    and "Forum_getattr E (self\<lparr>Forum_config := c\<rparr>) key = process_data E v"
    using Forum_getattr_in_data[OF assms(3,4)] by simp_all
  then show ?thesis
    using assms(1,2) by (simp add: Forum_attribute_fallback and_then_def)
qed

theorem Forum_attribute_prefers_data_witness:
  "Forum_attribute sample_env
     (sample_forum\<lparr>Forum_data := PDict [(ascii ''language'', PStr (ascii ''en-GB''))],
                  Forum_config := PDict [(ascii ''language'', PStr (ascii ''de''))]\<rparr>)
     (ascii ''language'') = Inr (Value (PStr (ascii ''en-GB'')))"
proof -
  let ?f = "sample_forum\<lparr>Forum_data := PDict [(ascii ''language'', PStr (ascii ''en-GB''))],
                  Forum_config := PDict [(ascii ''language'', PStr (ascii ''de''))]\<rparr>"
  have d: "Forum_data ?f = PDict [(ascii ''language'', PStr (ascii ''en-GB''))]"
    by simp
  have m: "map_of [(ascii ''language'', PStr (ascii ''en-GB''))] (ascii ''language'') =
      Some (PStr (ascii ''en-GB''))"
    by simp
  have p: "process_data sample_env (PStr (ascii ''en-GB'')) = Inr (PStr (ascii ''en-GB''))"
    by (simp add: process_data_def eval_simps)
  have "Forum_attribute sample_env ?f (ascii ''language'') =
      and_then (process_data sample_env (PStr (ascii ''en-GB''))) (\<lambda>x. Inr (Value x))"
    using Forum_attribute_prefers_data[OF sample_plain_names(1,2) d m] by (rule conjunct1)
  then show ?thesis by (simp add: p and_then_def)
qed

text \<open>
  C5. The claim as stated fails: \<^verbatim>\<open>url\<close> is in neither document of the sample forum, and
  \<^verbatim>\<open>forum.url\<close> is not \<^verbatim>\<open>None\<close> but the attribute that \<^verbatim>\<open>__init__\<close> set.
\<close>

theorem Forum_url_is_own_attribute:
  "py_contains (Forum_data sample_forum) (ascii ''url'') = Inr False \<and>
   py_contains (Forum_config sample_forum) (ascii ''url'') = Inr False \<and>
   Forum_attribute sample_env sample_forum (ascii ''url'') =
     Inr (Value (PStr (ascii ''https://forum.example/'')))"
proof -
  have a: "py_contains (Forum_data sample_forum) (ascii ''url'') = Inr False"
    by (simp add: sample_forum_def ascii_def)
  have b: "py_contains (Forum_config sample_forum) (ascii ''url'') = Inr False"
    by (simp add: sample_forum_def ascii_def)
  have c: "Forum_attribute sample_env sample_forum (ascii ''url'') =
     Inr (Value (PStr (ascii ''https://forum.example/'')))"
    by (simp add: Forum_attribute_def) (simp add: sample_forum_def)
  show ?thesis using a b c by (intro conjI)
qed

text \<open>
  C5, amended. When the key names no attribute of the object or of its class, the backing
  documents are dictionaries and the key is in none of them, the accesses \<^verbatim>\<open>forum.key\<close>
  (documents \<^verbatim>\<open>data\<close> and \<^verbatim>\<open>config\<close>) and \<^verbatim>\<open>user.key\<close> (document \<^verbatim>\<open>data\<close>) give \<^verbatim>\<open>None\<close>, raise
  nothing and send no request.
\<close>

theorem attribute_missing_key:
  "(key \<notin> set Forum_names \<and> \<not> object_attribute E key \<and>
    Forum_data f = PDict kvs \<and> Forum_config f = PDict cfg \<and>
    key \<notin> set (map fst kvs) \<and> key \<notin> set (map fst cfg)
      \<longrightarrow> Forum_attribute E f key = Inr (Value PNone)) \<and>
   (key \<notin> set User_names \<and> \<not> object_attribute E key \<and>
    User_data u = PDict ukvs \<and> key \<notin> set (map fst ukvs)
      \<longrightarrow> User_attribute E u key = (Inr (Value PNone), []))"
  using getattr_absent_key[of f kvs cfg key E u ukvs]
  by (auto simp add: Forum_attribute_fallback User_attribute_fallback)

theorem attribute_missing_key_witness:
  "Forum_attribute sample_env sample_forum (ascii ''missing'') = Inr (Value PNone) \<and>
   User_attribute sample_env (sample_user (PDict [(ascii ''uid'', PInt 1)])) (ascii ''missing'') =
     (Inr (Value PNone), [])"
proof -
  have "ascii ''missing'' \<notin> set Forum_names \<and> \<not> object_attribute sample_env (ascii ''missing'') \<and>
      Forum_data sample_forum = PDict [(ascii ''title'', PStr (ascii ''Home''))] \<and>
      Forum_config sample_forum = PDict [(ascii ''siteTitle'', PStr (ascii ''Example'')),
                             (ascii ''title'', PStr (ascii ''Configured''))] \<and>
      ascii ''missing'' \<notin> set (map fst [(ascii ''title'', PStr (ascii ''Home''))]) \<and>
      ascii ''missing'' \<notin> set (map fst [(ascii ''siteTitle'', PStr (ascii ''Example'')),
                             (ascii ''title'', PStr (ascii ''Configured''))])"
    using sample_plain_names(3,5) by (simp add: sample_forum_def) (simp add: ascii_def)
  moreover have "ascii ''missing'' \<notin> set User_names \<and>
      \<not> object_attribute sample_env (ascii ''missing'') \<and>
      User_data (sample_user (PDict [(ascii ''uid'', PInt 1)])) =
        PDict [(ascii ''uid'', PInt 1)] \<and>
      ascii ''missing'' \<notin> set (map fst [(ascii ''uid'', PInt 1)])"
    using sample_plain_names(4,5) by (simp add: sample_user_def) (simp add: ascii_def)
  ultimately show ?thesis
    using attribute_missing_key[of "ascii ''missing''" sample_env sample_forum
        "[(ascii ''title'', PStr (ascii ''Home''))]"
        "[(ascii ''siteTitle'', PStr (ascii ''Example'')),
          (ascii ''title'', PStr (ascii ''Configured''))]"
        "sample_user (PDict [(ascii ''uid'', PInt 1)])" "[(ascii ''uid'', PInt 1)]"]
    by blast
qed

text \<open>
  C6. \<^verbatim>\<open>Forum.__init__\<close> raises the \<^verbatim>\<open>ValueError\<close> "That's not a NodeBB forum" exactly when
  the HEAD request was answered and the \<^verbatim>\<open>X-Powered-By\<close> header of the answer is missing or is
  not \<^verbatim>\<open>NodeBB\<close>; then no object is built and the HEAD request is the only request sent.
\<close>

theorem Forum_init_not_nodebb:
  "(fst (Forum_init E url) = Inl not_nodebb_error \<longleftrightarrow>
      (\<exists>head. http_head E url = Inr head \<and>
         head (ascii ''X-Powered-By'') \<noteq> Some (ascii ''NodeBB''))) \<and>
   (\<forall>head. http_head E url = Inr head \<and>
         head (ascii ''X-Powered-By'') \<noteq> Some (ascii ''NodeBB'')
      \<longrightarrow> Forum_init E url = (Inl not_nodebb_error, [HEAD url]))"
proof -
  have a: "Forum_init E url = (Inl not_nodebb_error, [HEAD url])"
    if "http_head E url = Inr head" "head (ascii ''X-Powered-By'') \<noteq> Some (ascii ''NodeBB'')"
    for head
    using that by (simp add: Forum_init_def)
  have b: "fst (Forum_init E url) \<noteq> Inl not_nodebb_error"
    if "http_head E url = Inl x" for x
    using that by (simp add: Forum_init_def not_nodebb_error_def)
  have c: "fst (Forum_init E url) \<noteq> Inl not_nodebb_error"
    if "http_head E url = Inr head" "head (ascii ''X-Powered-By'') = Some (ascii ''NodeBB'')"
    for head
    using that
    by (simp add: Forum_init_def not_nodebb_error_def split: sum.split)
       (auto dest: py_getitem_error urljoin_str_error)
  show ?thesis
  proof (cases "http_head E url")
    case (Inl x)
    then show ?thesis using b by simp
  next
    case (Inr head)
    then show ?thesis using a[OF Inr] c[OF Inr] by auto
  qed
qed


lemma sample_http_head:
  "http_head sample_env =
     (\<lambda>url. if url = ascii ''https://forum.example/''
            then Inr (\<lambda>name. if name = ascii ''X-Powered-By''
                             then Some (ascii ''NodeBB'') else None)
            else Inr (\<lambda>name. None))"
  by (simp add: sample_env_def)

lemma other_url: "ascii ''https://other.example/'' \<noteq> ascii ''https://forum.example/''"
  by (simp add: ascii_def)

theorem Forum_init_not_nodebb_witness:
  "Forum_init sample_env (ascii ''https://other.example/'') =
     (Inl not_nodebb_error, [HEAD (ascii ''https://other.example/'')])"
proof -
  have h: "http_head sample_env (ascii ''https://other.example/'') = Inr (\<lambda>name. None)"
    by (simp add: sample_http_head other_url)
  have n: "(\<lambda>name. None) (ascii ''X-Powered-By'') \<noteq> Some (ascii ''NodeBB'')"
    by simp
  have "\<forall>head. http_head sample_env (ascii ''https://other.example/'') = Inr head \<and>
         head (ascii ''X-Powered-By'') \<noteq> Some (ascii ''NodeBB'')
      \<longrightarrow> Forum_init sample_env (ascii ''https://other.example/'') =
          (Inl not_nodebb_error, [HEAD (ascii ''https://other.example/'')])"
    using Forum_init_not_nodebb[of sample_env "ascii ''https://other.example/''"]
    by (rule conjunct2)
  then show ?thesis using h n by blast
qed

lemma Forum_init_sample:
  "Forum_init sample_env (ascii ''https://forum.example/'') =
     (Inr sample_forum,
      [HEAD (ascii ''https://forum.example/''), GET (ascii ''https://forum.example/api/''),
       GET (ascii ''https://forum.example/api/config'')])"
  by (simp add: Forum_init_def sample_env_def sample_forum_def urljoin_str_def ascii_def)

text \<open>
  C7. The claim as stated fails: the picture goes through \<^verbatim>\<open>User.__getattr__\<close> and is coerced.
  With a picture of thirteen digits, joining the endpoint with the raw string gives a URL,
  but \<^verbatim>\<open>image\<close> raises \<^verbatim>\<open>TypeError\<close>, since \<^verbatim>\<open>urljoin\<close> is given a datetime.
\<close>

theorem User_image_picture_is_coerced:
  "urljoin sample_env (Forum_endpoint sample_forum) (PStr (ascii ''1609459200000'')) =
     Inr (PStr (ascii ''https://forum.example/api/1609459200000'')) \<and>
   User_image sample_env
     (sample_user (PDict [(ascii ''picture'', PStr (ascii ''1609459200000''))])) =
     (Inl TypeError, [])"
proof -
  have p: "process_data sample_env (PStr (ascii ''1609459200000'')) =
      Inr (PDatetime (Datetime 2021 1 1 0 0 0 0))"
    using process_data_str_guard[of sample_env "ascii ''1609459200000''"] fromtimestamp_2021
    by (simp add: eval_simps)
  have u: "urljoin sample_env (Forum_endpoint sample_forum) (PStr (ascii ''1609459200000'')) =
     Inr (PStr (ascii ''https://forum.example/api/1609459200000''))"
    by (simp add: urljoin_def sample_forum_def sample_env_sel ascii_def)
  have "User_image sample_env
     (sample_user (PDict [(ascii ''picture'', PStr (ascii ''1609459200000''))])) =
     (Inl TypeError, [])"
    using p
    by (simp add: User_image_def User_getattr_def sample_user_def urljoin_def sample_forum_def)
       (simp add: ascii_def)
  then show ?thesis using u by (intro conjI)
qed

text \<open>
  C7, amended. Without PIL, \<^verbatim>\<open>image\<close> joins \<^verbatim>\<open>forum.endpoint\<close> with the picture as
  \<^verbatim>\<open>User.__getattr__\<close> resolves it, that is with the coerced value, and returns the joined URL
  without sending a request; when the picture is a non-empty string that the coercion
  leaves as it is, the result is the URL resolved from the endpoint and that string.
\<close>

theorem User_image_without_PIL:
  assumes "\<not> hasPIL E" and "User_data self = PDict kvs"
    and "map_of kvs (ascii ''picture'') = Some raw"
  shows "User_image E self =
      (case and_then (process_data E raw) (urljoin E (Forum_endpoint (User_forum self))) of
         Inl e \<Rightarrow> (Inl e, [])
       | Inr imgurl \<Rightarrow> (Inr (ImageURL imgurl), [])) \<and>
     (\<forall>p r. raw = PStr p \<and> process_data E raw = Inr raw \<and> p \<noteq> [] \<and>
            Forum_endpoint (User_forum self) \<noteq> [] \<and>
            url_resolve E (Forum_endpoint (User_forum self)) p = Inr r
        \<longrightarrow> User_image E self = (Inr (ImageURL (PStr r)), []))"
proof -
  have k: "ascii ''picture'' \<in> fst ` set kvs"
    using assms(3) by (metis map_of_eq_None_iff option.distinct(1))
  have g: "User_getattr E self (ascii ''picture'') = process_data E raw"
    using assms(2,3) k by (simp add: User_getattr_def)
  have a: "User_image E self =
      (case and_then (process_data E raw) (urljoin E (Forum_endpoint (User_forum self))) of
         Inl e \<Rightarrow> (Inl e, [])
       | Inr imgurl \<Rightarrow> (Inr (ImageURL imgurl), []))"
    using assms(1) by (simp add: User_image_def g and_then_def split: sum.splits)
  show ?thesis
    unfolding a by (auto simp add: and_then_def urljoin_def)
qed

theorem User_image_without_PIL_witness:
  "User_image sample_env
     (sample_user (PDict [(ascii ''picture'', PStr (ascii ''uploads/a.png''))])) =
     (Inr (ImageURL (PStr (ascii ''https://forum.example/api/uploads/a.png''))), [])"
proof -
  let ?u = "sample_user (PDict [(ascii ''picture'', PStr (ascii ''uploads/a.png''))])"
  have h: "\<not> hasPIL sample_env" by (simp add: sample_env_sel)
  have d: "User_data ?u = PDict [(ascii ''picture'', PStr (ascii ''uploads/a.png''))]"
    by (simp add: sample_user_def)
  have m: "map_of [(ascii ''picture'', PStr (ascii ''uploads/a.png''))] (ascii ''picture'') =
      Some (PStr (ascii ''uploads/a.png''))"
    by simp
  have p: "process_data sample_env (PStr (ascii ''uploads/a.png'')) =
      Inr (PStr (ascii ''uploads/a.png''))"
    by (simp add: process_data_def eval_simps)
  have e: "Forum_endpoint (User_forum ?u) = ascii ''https://forum.example/api/''"
    by (simp add: sample_user_def sample_forum_def)
  have r: "url_resolve sample_env (ascii ''https://forum.example/api/'') (ascii ''uploads/a.png'') =
      Inr (ascii ''https://forum.example/api/uploads/a.png'')"
    by (simp add: sample_env_sel ascii_def)
  have n: "ascii ''uploads/a.png'' \<noteq> []" "ascii ''https://forum.example/api/'' \<noteq> []"
    by (simp_all add: ascii_def)
  have "\<forall>p r. PStr (ascii ''uploads/a.png'') = PStr p \<and>
            process_data sample_env (PStr (ascii ''uploads/a.png'')) =
              Inr (PStr (ascii ''uploads/a.png'')) \<and> p \<noteq> [] \<and>
            Forum_endpoint (User_forum ?u) \<noteq> [] \<and>
            url_resolve sample_env (Forum_endpoint (User_forum ?u)) p = Inr r
        \<longrightarrow> User_image sample_env ?u = (Inr (ImageURL (PStr r)), [])"
    using User_image_without_PIL[OF h d m] by (rule conjunct2)
  then show ?thesis using p e r n by (simp only:) blast
qed


section \<open>Claims on the ISO format\<close>

declare iso_text.simps [simp del]

lemma decimal_number_bound:
  "list_all (ascii_between 48 57) G \<Longrightarrow> decimal_number E G < 10 ^ length G"
proof (induction G rule: rev_induct)
  case Nil
  then show ?case by (simp add: decimal_number_def)
next
  case (snoc c G)
  then have "decimal_number E G < 10 ^ length G" and c: "ascii_between 48 57 c" by simp_all
  moreover have "decimal_value E c \<le> 9"
    using c by (auto simp add: decimal_value_def numeric_type_def ascii_between_def)
  ultimately show ?case by (simp add: decimal_number_snoc)
qed

lemma padded_fraction_bound:
  assumes "list_all (ascii_between 48 57) F" "length F \<le> 6"
  shows "decimal_number E (F @ replicate (6 - length F) 48) < 1000000"
proof -
  have "list_all (ascii_between 48 57) (F @ replicate (6 - length F) 48)"
    using assms(1) by (auto simp add: list_all_iff ascii_between_def)
  then have "decimal_number E (F @ replicate (6 - length F) 48) <
      10 ^ length (F @ replicate (6 - length F) 48)"
    by (rule decimal_number_bound)
  then show ?thesis using assms(2) by simp
qed

lemma valid_datetime_bounds:
  assumes "valid_datetime (Datetime y mo d h mi s us)"
  shows "1 \<le> y" "y < 10000" "1 \<le> mo" "mo \<le> 12" "1 \<le> d" "d \<le> 31" "h < 24" "mi < 60"
    "s < 60" "us < 1000000" "mo < 100" "d < 100" "h < 100" "mi < 100" "s < 100"
  using assms by (auto simp add: valid_datetime_def days_in_month_def split: if_splits)

lemma iso_text_explicit:
  assumes "valid_datetime (Datetime y mo d h mi s us)"
  shows "iso_text p1 p2 p3 p4 p5 p6 (Datetime y mo d h mi s us) F R =
     [48 + y div 1000, 48 + y div 100 mod 10, 48 + y div 10 mod 10, 48 + y mod 10] @ [p1] @
     [48 + mo div 10, 48 + mo mod 10] @ [p2] @ [48 + d div 10, 48 + d mod 10] @ [p3] @
     [48 + h div 10, 48 + h mod 10] @ [p4] @ [48 + mi div 10, 48 + mi mod 10] @ [p5] @
     [48 + s div 10, 48 + s mod 10] @ [p6] @ (F @ R)"
  using valid_datetime_bounds[OF assms] by (simp add: iso_text.simps zero_pad_4 zero_pad_2)

lemma length_iso_text:
  assumes "valid_datetime (Datetime y mo d h mi s us)"
  shows "length (iso_text p1 p2 p3 p4 p5 p6 (Datetime y mo d h mi s us) F R) =
     20 + length F + length R"
  by (simp add: iso_text_explicit[OF assms])


lemma strptime_iso_separators:
  assumes yd: "y div 1000 < 10"
  shows "strptime_iso E
      ([48 + y div 1000, 48 + y div 100 mod 10, 48 + y div 10 mod 10, 48 + y mod 10] @ [p1] @
       [48 + mo div 10, 48 + mo mod 10] @ [p2] @ [48 + d div 10, 48 + d mod 10] @ [p3] @
       [48 + h div 10, 48 + h mod 10] @ [p4] @ [48 + mi div 10, 48 + mi mod 10] @ [p5] @
       [48 + s div 10, 48 + s mod 10] @ [p6] @ (F @ R)) =
     (if p1 = 45 \<and> p2 = 45 \<and> (p3 = 84 \<or> p3 = 116) \<and> p4 = 58 \<and> p5 = 58 \<and> p6 = 46
      then do {
             us \<leftarrow> match_f E (F @ R);
             mo \<leftarrow> match_m E [48 + mo div 10, 48 + mo mod 10];
             d \<leftarrow> match_d E [48 + d div 10, 48 + d mod 10];
             h \<leftarrow> match_H E [48 + h div 10, 48 + h mod 10];
             mi \<leftarrow> match_M E [48 + mi div 10, 48 + mi mod 10];
             sec \<leftarrow> match_S E [48 + s div 10, 48 + s mod 10];
             datetime_new (Datetime (decimal_number E
               [48 + y div 1000, 48 + y div 100 mod 10, 48 + y div 10 mod 10, 48 + y mod 10])
               mo d h mi sec us)
           }
      else None)"
proof (rule strptime_iso_shape)
  show "list_all (char_isdecimal E)
     [48 + y div 1000, 48 + y div 100 mod 10, 48 + y div 10 mod 10, 48 + y mod 10]"
    using yd by (simp add: digit_char_facts)
qed simp_all


lemma strptime_iso_groups:
  assumes v: "valid_datetime (Datetime y mo d h mi s us)"
    and F: "list_all (ascii_between 48 57) F"
    and R: "R = [] \<or> \<not> ascii_between 48 57 (hd R)"
  shows "do {
             us \<leftarrow> match_f E (F @ R);
             mo \<leftarrow> match_m E [48 + mo div 10, 48 + mo mod 10];
             d \<leftarrow> match_d E [48 + d div 10, 48 + d mod 10];
             h \<leftarrow> match_H E [48 + h div 10, 48 + h mod 10];
             mi \<leftarrow> match_M E [48 + mi div 10, 48 + mi mod 10];
             sec \<leftarrow> match_S E [48 + s div 10, 48 + s mod 10];
             datetime_new (Datetime (decimal_number E
               [48 + y div 1000, 48 + y div 100 mod 10, 48 + y div 10 mod 10, 48 + y mod 10])
               mo d h mi sec us)
           } =
     (if 1 \<le> length F \<and> length F \<le> 6 \<and> (R = [90] \<or> R = [122])
      then Some (Datetime y mo d h mi s (decimal_number E (F @ replicate (6 - length F) 48)))
      else None)"
proof -
  note b = valid_datetime_bounds[OF v]
  have m: "match_m E [48 + mo div 10, 48 + mo mod 10] = Some mo"
    "match_d E [48 + d div 10, 48 + d mod 10] = Some d"
    "match_H E [48 + h div 10, 48 + h mod 10] = Some h"
    "match_M E [48 + mi div 10, 48 + mi mod 10] = Some mi"
    "match_S E [48 + s div 10, 48 + s mod 10] = Some s"
    using b by (simp_all only: match_m_pad match_d_pad match_H_pad match_M_pad match_S_pad)
  have y: "decimal_number E
      [48 + y div 1000, 48 + y div 100 mod 10, 48 + y div 10 mod 10, 48 + y mod 10] = y"
    using b(2) by (rule decimal_number_4)
  have n: "datetime_new (Datetime y mo d h mi s u) = Some (Datetime y mo d h mi s u)"
    if "u < 1000000" for u
    using v that by (simp add: datetime_new_def valid_datetime_def)
  show ?thesis
  proof (cases "1 \<le> length F \<and> length F \<le> 6 \<and> (R = [90] \<or> R = [122])")
    case True
    then have "decimal_number E (F @ replicate (6 - length F) 48) < 1000000"
      using padded_fraction_bound[OF F] by simp
    then show ?thesis
      using True
      by (simp add: match_f_digits[OF F R] m y n
          del: match_m.simps match_d.simps match_H.simps match_M.simps match_S.simps)
  next
    case False
    then show ?thesis
      by (auto simp add: match_f_digits[OF F R]
          simp del: match_m.simps match_d.simps match_H.simps match_M.simps match_S.simps)
  qed
qed

lemma strptime_iso_text:
  assumes v: "valid_datetime (Datetime y mo d h mi s us)"
    and F: "list_all (ascii_between 48 57) F"
    and R: "R = [] \<or> \<not> ascii_between 48 57 (hd R)"
  shows "strptime_iso E (iso_text p1 p2 p3 p4 p5 p6 (Datetime y mo d h mi s us) F R) =
     (if p1 = 45 \<and> p2 = 45 \<and> (p3 = 84 \<or> p3 = 116) \<and> p4 = 58 \<and> p5 = 58 \<and> p6 = 46 \<and>
         1 \<le> length F \<and> length F \<le> 6 \<and> (R = [90] \<or> R = [122])
      then Some (Datetime y mo d h mi s (decimal_number E (F @ replicate (6 - length F) 48)))
      else None)"
proof -
  have yd: "y div 1000 < 10" using valid_datetime_bounds(2)[OF v] by simp
  show ?thesis
    unfolding iso_text_explicit[OF v] strptime_iso_separators[OF yd]
      strptime_iso_groups[OF v F R]
    by auto
qed

lemma process_data_iso_text:
  assumes v: "valid_datetime (Datetime y mo d h mi s us)"
    and F: "list_all (ascii_between 48 57) F"
    and R: "R = [] \<or> \<not> ascii_between 48 57 (hd R)"
  shows "process_data E (PStr (iso_text p1 p2 p3 p4 p5 p6 (Datetime y mo d h mi s us) F R)) =
     (if p1 = 45 \<and> p2 = 45 \<and> (p3 = 84 \<or> p3 = 116) \<and> p4 = 58 \<and> p5 = 58 \<and> p6 = 46 \<and>
         1 \<le> length F \<and> length F \<le> 6 \<and> (R = [90] \<or> R = [122])
      then Inr (PDatetime
             (Datetime y mo d h mi s (decimal_number E (F @ replicate (6 - length F) 48))))
      else Inr (PStr (iso_text p1 p2 p3 p4 p5 p6 (Datetime y mo d h mi s us) F R)))"
proof -
  let ?t = "iso_text p1 p2 p3 p4 p5 p6 (Datetime y mo d h mi s us) F R"
  have "length ?t \<noteq> 13" by (simp add: length_iso_text[OF v])
  then have "process_data E (PStr ?t) =
     (case strptime_iso E ?t of Some dt \<Rightarrow> Inr (PDatetime dt) | None \<Rightarrow> Inr (PStr ?t))"
    by (intro process_data_str_no_guard) simp
  then show ?thesis by (simp only: strptime_iso_text[OF v F R]) simp
qed


text \<open>
  C3. The claim as stated fails: a fraction of one digit is accepted, since the group of
  \<^verbatim>\<open>%f\<close> is \<^verbatim>\<open>[0-9]{1,6}\<close>, and is padded with zeros on the right.
\<close>

theorem process_data_short_fraction_converted:
  "process_data sample_env (PStr (ascii ''2021-01-01T00:00:00.1Z'')) =
     Inr (PDatetime (Datetime 2021 1 1 0 0 0 100000))"
  by (simp add: process_data_def eval_simps)

text \<open>
  C3, amended. For a datetime with fields in range: the text
  \<^verbatim>\<open>YYYY-MM-DDTHH:MM:SS.ffffffZ\<close> of the datetime is converted to that datetime; so is the
  text with any fraction of one to six digits, padded with zeros on the right, and with
  \<^verbatim>\<open>T\<close> and \<^verbatim>\<open>Z\<close> in either case. The text is returned unchanged when one of the six
  separators is another character, when the final \<^verbatim>\<open>Z\<close> is missing, and when the fraction is
  empty or longer than six digits.
\<close>

theorem process_data_iso_format:
  assumes "valid_datetime (Datetime y mo d h mi s us)"
    and "list_all (ascii_between 48 57) F"
  shows
    "process_data E
       (PStr (iso_text 45 45 84 58 58 46 (Datetime y mo d h mi s us) (zero_pad 6 us) [90])) =
       Inr (PDatetime (Datetime y mo d h mi s us)) \<and>
     (1 \<le> length F \<and> length F \<le> 6 \<and> (p3 = 84 \<or> p3 = 116) \<and> (z = 90 \<or> z = 122) \<longrightarrow>
       process_data E (PStr (iso_text 45 45 p3 58 58 46 (Datetime y mo d h mi s us) F [z])) =
       Inr (PDatetime
         (Datetime y mo d h mi s (decimal_number E (F @ replicate (6 - length F) 48))))) \<and>
     (p1 \<noteq> 45 \<or> p2 \<noteq> 45 \<or> (p3 \<noteq> 84 \<and> p3 \<noteq> 116) \<or> p4 \<noteq> 58 \<or> p5 \<noteq> 58 \<or> p6 \<noteq> 46 \<longrightarrow>
       process_data E (PStr (iso_text p1 p2 p3 p4 p5 p6 (Datetime y mo d h mi s us) F [90])) =
       Inr (PStr (iso_text p1 p2 p3 p4 p5 p6 (Datetime y mo d h mi s us) F [90]))) \<and>
     process_data E (PStr (iso_text 45 45 84 58 58 46 (Datetime y mo d h mi s us) F [])) =
       Inr (PStr (iso_text 45 45 84 58 58 46 (Datetime y mo d h mi s us) F [])) \<and>
     (F = [] \<or> 6 < length F \<longrightarrow>
       process_data E (PStr (iso_text 45 45 84 58 58 46 (Datetime y mo d h mi s us) F [90])) =
       Inr (PStr (iso_text 45 45 84 58 58 46 (Datetime y mo d h mi s us) F [90])))"
proof -
  note v = assms(1) and F = assms(2)
  have us: "us < 10 ^ 6" using valid_datetime_bounds(10)[OF v] by simp
  have z90: "[90] = [] \<or> \<not> ascii_between 48 57 (hd [90])"
    by (simp add: ascii_between_def)
  have zz: "[z] = [] \<or> \<not> ascii_between 48 57 (hd [z])" if "z = 90 \<or> z = 122" for z :: nat
    using that by (auto simp add: ascii_between_def)
  have e: "([]::nat list) = [] \<or> \<not> ascii_between 48 57 (hd [])" by simp
  have l6: "length (zero_pad 6 us) = 6" using us by (simp add: length_zero_pad)
  have a: "process_data E
       (PStr (iso_text 45 45 84 58 58 46 (Datetime y mo d h mi s us) (zero_pad 6 us) [90])) =
       Inr (PDatetime (Datetime y mo d h mi s us))"
    using process_data_iso_text[OF v zero_pad_digits z90, of E 45 45 84 58 58 46 6]
    by (simp add: l6 decimal_number_zero_pad)
  have b: "process_data E (PStr (iso_text 45 45 p3 58 58 46 (Datetime y mo d h mi s us) F [z])) =
       Inr (PDatetime
         (Datetime y mo d h mi s (decimal_number E (F @ replicate (6 - length F) 48))))"
    if "1 \<le> length F \<and> length F \<le> 6 \<and> (p3 = 84 \<or> p3 = 116) \<and> (z = 90 \<or> z = 122)"
    using that process_data_iso_text[OF v F zz, of z E 45 45 p3 58 58 46] by auto
  have c: "process_data E (PStr (iso_text p1 p2 p3 p4 p5 p6 (Datetime y mo d h mi s us) F [90])) =
       Inr (PStr (iso_text p1 p2 p3 p4 p5 p6 (Datetime y mo d h mi s us) F [90]))"
    if "p1 \<noteq> 45 \<or> p2 \<noteq> 45 \<or> (p3 \<noteq> 84 \<and> p3 \<noteq> 116) \<or> p4 \<noteq> 58 \<or> p5 \<noteq> 58 \<or> p6 \<noteq> 46"
    using that process_data_iso_text[OF v F z90, of E p1 p2 p3 p4 p5 p6] by auto
  have d: "process_data E (PStr (iso_text 45 45 84 58 58 46 (Datetime y mo d h mi s us) F [])) =
       Inr (PStr (iso_text 45 45 84 58 58 46 (Datetime y mo d h mi s us) F []))"
    using process_data_iso_text[OF v F e, of E 45 45 84 58 58 46] by simp
  have f: "process_data E (PStr (iso_text 45 45 84 58 58 46 (Datetime y mo d h mi s us) F [90])) =
       Inr (PStr (iso_text 45 45 84 58 58 46 (Datetime y mo d h mi s us) F [90]))"
    if "F = [] \<or> 6 < length F"
    using that process_data_iso_text[OF v F z90, of E 45 45 84 58 58 46] by auto
  show ?thesis using a b c d f by blast
qed

lemma iso_text_sample:
  "iso_text 45 45 p3 58 58 46 (Datetime 2021 3 4 5 6 7 us) F R =
     ascii ''2021-03-04'' @ [p3] @ ascii ''05:06:07.'' @ F @ R"
  by (simp add: iso_text.simps eval_simps)

theorem process_data_iso_format_witness:
  "process_data sample_env (PStr (ascii ''2021-03-04T05:06:07.123456Z'')) =
     Inr (PDatetime (Datetime 2021 3 4 5 6 7 123456)) \<and>
   process_data sample_env (PStr (ascii ''2021-03-04t05:06:07.12z'')) =
     Inr (PDatetime (Datetime 2021 3 4 5 6 7 120000)) \<and>
   process_data sample_env (PStr (ascii ''2021-03-04 05:06:07.123456Z'')) =
     Inr (PStr (ascii ''2021-03-04 05:06:07.123456Z'')) \<and>
   process_data sample_env (PStr (ascii ''2021-03-04T05:06:07.123456'')) =
     Inr (PStr (ascii ''2021-03-04T05:06:07.123456'')) \<and>
   process_data sample_env (PStr (ascii ''2021-03-04T05:06:07.1234567Z'')) =
     Inr (PStr (ascii ''2021-03-04T05:06:07.1234567Z''))"
proof -
  have v: "valid_datetime (Datetime 2021 3 4 5 6 7 123456)"
    by (simp add: valid_datetime_def days_in_month_def)
  have F6: "list_all (ascii_between 48 57) (ascii ''123456'')"
    and F2: "list_all (ascii_between 48 57) (ascii ''12'')"
    and F7: "list_all (ascii_between 48 57) (ascii ''1234567'')"
    by (simp_all add: ascii_def ascii_between_def)
  have p6: "zero_pad 6 123456 = ascii ''123456''" by (simp add: eval_simps)
  have n2: "decimal_number sample_env (ascii ''12'' @ replicate (6 - length (ascii ''12'')) 48) =
      120000"
    by (simp add: eval_simps)
  have w1: "process_data sample_env (PStr (ascii ''2021-03-04T05:06:07.123456Z'')) =
     Inr (PDatetime (Datetime 2021 3 4 5 6 7 123456))"
    using process_data_iso_format[OF v F6, where E = sample_env, THEN conjunct1]
    by (simp add: iso_text_sample p6) (simp add: ascii_def)
  have w2: "process_data sample_env (PStr (ascii ''2021-03-04t05:06:07.12z'')) =
     Inr (PDatetime (Datetime 2021 3 4 5 6 7 120000))"
    using process_data_iso_format[OF v F2, where E = sample_env and ?p3.0 = 116 and z = 122,
        THEN conjunct2, THEN conjunct1]
    by (simp add: iso_text_sample n2) (simp add: ascii_def)
  have w3: "process_data sample_env (PStr (ascii ''2021-03-04 05:06:07.123456Z'')) =
     Inr (PStr (ascii ''2021-03-04 05:06:07.123456Z''))"
    using process_data_iso_format[OF v F6, where E = sample_env and ?p1.0 = 45 and ?p2.0 = 45
        and ?p3.0 = 32 and ?p4.0 = 58 and ?p5.0 = 58 and ?p6.0 = 46,
        THEN conjunct2, THEN conjunct2, THEN conjunct1]
    by (simp add: iso_text_sample) (simp add: ascii_def)
  have w4: "process_data sample_env (PStr (ascii ''2021-03-04T05:06:07.123456'')) =
     Inr (PStr (ascii ''2021-03-04T05:06:07.123456''))"
    using process_data_iso_format[OF v F6, where E = sample_env,
        THEN conjunct2, THEN conjunct2, THEN conjunct2, THEN conjunct1]
    by (simp add: iso_text_sample) (simp add: ascii_def)
  have w5: "process_data sample_env (PStr (ascii ''2021-03-04T05:06:07.1234567Z'')) =
     Inr (PStr (ascii ''2021-03-04T05:06:07.1234567Z''))"
    using process_data_iso_format[OF v F7, where E = sample_env,
        THEN conjunct2, THEN conjunct2, THEN conjunct2, THEN conjunct2]
    by (simp add: iso_text_sample) (simp add: ascii_def)
  show ?thesis using w1 w2 w3 w4 w5 by (intro conjI)
qed


lemma strptime_short: "length s < 17 \<Longrightarrow> strptime E (PStr s) = Inl (ValueError ''time data does not match format'')"
proof -
  assume a: "length s < 17"
  have "strptime_iso E s = None"
  proof (cases "strptime_iso E s")
    case (Some dt)
    then show ?thesis using strptime_iso_min_length[of E s dt] a by simp
  qed simp
  then show ?thesis by (simp add: strptime_def)
qed

lemma strptime_error: "strptime E data = Inl e \<Longrightarrow> e = TypeError \<or> (\<exists>msg. e = ValueError msg)"
  by (auto simp add: strptime_def split: pyval.splits option.splits)

text \<open>
  C1. The strategies are applied in order. When the text \<^verbatim>\<open>str(data)\<close> is digits only and
  thirteen characters long, the result is that of the conversion of \<^verbatim>\<open>int(data)\<close> to a
  datetime, and the ISO format would not match. Otherwise the result is the datetime parsed
  by \<^verbatim>\<open>strptime\<close> when it parses, and the value itself when it does not. A string of thirteen
  characters with a character that is not a digit is returned unchanged, and so is every
  value that is neither a string nor an integer.
\<close>

theorem process_data_strategy_order:
  "(str_isdigit E (py_str data) \<and> length (py_str data) = 13 \<longrightarrow>
      process_data E data =
        and_then (py_int E data) (\<lambda>n. Inr (PDatetime (fromtimestamp E (of_int n / 1000)))) \<and>
      (\<forall>dt. strptime E data \<noteq> Inr dt)) \<and>
   (\<not> (str_isdigit E (py_str data) \<and> length (py_str data) = 13) \<longrightarrow>
      (\<forall>dt. strptime E data = Inr dt \<longrightarrow> process_data E data = Inr (PDatetime dt)) \<and>
      ((\<forall>dt. strptime E data \<noteq> Inr dt) \<longrightarrow> process_data E data = Inr data)) \<and>
   (\<forall>s. data = PStr s \<and> length s = 13 \<and> \<not> list_all (char_isdigit E) s \<longrightarrow>
      process_data E data = Inr data) \<and>
   ((\<forall>s. data \<noteq> PStr s) \<and> (\<forall>i. data \<noteq> PInt i) \<longrightarrow> process_data E data = Inr data)"
proof -
  let ?g = "str_isdigit E (py_str data) \<and> length (py_str data) = 13"
  have a1: "process_data E data =
        and_then (py_int E data) (\<lambda>n. Inr (PDatetime (fromtimestamp E (of_int n / 1000))))"
    if ?g
    using that by (simp add: process_data_def and_then_def)
  have a2: "strptime E data \<noteq> Inr dt" if ?g for dt
  proof (cases data)
    case (PStr s)
    then have "length s < 17" using that by (simp add: py_str_def)
    then show ?thesis using PStr by (simp add: strptime_short)
  qed (simp_all add: strptime_not_str)
  have b1: "process_data E data = Inr (PDatetime dt)" if "\<not> ?g" "strptime E data = Inr dt" for dt
    using that by (auto simp add: process_data_def)
  have b2: "process_data E data = Inr data" if "\<not> ?g" "\<forall>dt. strptime E data \<noteq> Inr dt"
  proof (cases "strptime E data")
    case (Inl e)
    then show ?thesis using that(1) strptime_error[OF Inl] by (auto simp add: process_data_def)
  next
    case (Inr dt)
    then show ?thesis using that(2) by simp
  qed
  have c: "process_data E data = Inr data"
    if "data = PStr s \<and> length s = 13 \<and> \<not> list_all (char_isdigit E) s" for s
  proof -
    have "\<not> ?g" using that by (simp add: py_str_def str_isdigit_def)
    moreover have "\<forall>dt. strptime E data \<noteq> Inr dt" using that by (simp add: strptime_short)
    ultimately show ?thesis by (rule b2)
  qed
  have d: "process_data E data = Inr data" if "(\<forall>s. data \<noteq> PStr s) \<and> (\<forall>i. data \<noteq> PInt i)"
    using that by (cases data) (simp_all add: process_data_other)
  show ?thesis using a1 a2 b1 b2 c d by blast
qed

theorem process_data_strategy_order_witness:
  "process_data sample_env (PStr (ascii ''1609459200000'')) =
     Inr (PDatetime (Datetime 2021 1 1 0 0 0 0)) \<and>
   process_data sample_env (PStr (ascii ''2021-03-04T05:06:07.123456Z'')) =
     Inr (PDatetime (Datetime 2021 3 4 5 6 7 123456)) \<and>
   process_data sample_env (PStr (ascii ''hello'')) = Inr (PStr (ascii ''hello'')) \<and>
   process_data sample_env (PStr (ascii ''16094592000x0'')) =
     Inr (PStr (ascii ''16094592000x0'')) \<and>
   process_data sample_env PNone = Inr PNone"
proof -
  note t = process_data_strategy_order[where E = sample_env]
  have g1: "str_isdigit sample_env (py_str (PStr (ascii ''1609459200000''))) \<and>
      length (py_str (PStr (ascii ''1609459200000''))) = 13"
    by (simp add: eval_simps)
  have i1: "py_int sample_env (PStr (ascii ''1609459200000'')) = Inr 1609459200000"
    by (simp add: eval_simps)
  have w1: "process_data sample_env (PStr (ascii ''1609459200000'')) =
     Inr (PDatetime (Datetime 2021 1 1 0 0 0 0))"
    using t[where data = "PStr (ascii ''1609459200000'')", THEN conjunct1] g1 i1
      fromtimestamp_2021
    by (simp add: and_then_def)
  have g2: "\<not> (str_isdigit sample_env (py_str (PStr (ascii ''2021-03-04T05:06:07.123456Z''))) \<and>
      length (py_str (PStr (ascii ''2021-03-04T05:06:07.123456Z''))) = 13)"
    by (simp add: py_str_def ascii_def)
  have s2: "strptime sample_env (PStr (ascii ''2021-03-04T05:06:07.123456Z'')) =
      Inr (Datetime 2021 3 4 5 6 7 123456)"
    by (simp add: eval_simps)
  have w2: "process_data sample_env (PStr (ascii ''2021-03-04T05:06:07.123456Z'')) =
     Inr (PDatetime (Datetime 2021 3 4 5 6 7 123456))"
    using t[where data = "PStr (ascii ''2021-03-04T05:06:07.123456Z'')",
        THEN conjunct2, THEN conjunct1] g2 s2 by blast
  have g3: "\<not> (str_isdigit sample_env (py_str (PStr (ascii ''hello''))) \<and>
      length (py_str (PStr (ascii ''hello''))) = 13)"
    by (simp add: py_str_def ascii_def)
  have s3: "\<forall>dt. strptime sample_env (PStr (ascii ''hello'')) \<noteq> Inr dt"
    by (simp add: eval_simps)
  have w3: "process_data sample_env (PStr (ascii ''hello'')) = Inr (PStr (ascii ''hello''))"
    using t[where data = "PStr (ascii ''hello'')", THEN conjunct2, THEN conjunct1] g3 s3
    by blast
  have g4: "length (ascii ''16094592000x0'') = 13 \<and>
      \<not> list_all (char_isdigit sample_env) (ascii ''16094592000x0'')"
    by (simp add: eval_simps)
  have w4: "process_data sample_env (PStr (ascii ''16094592000x0'')) =
     Inr (PStr (ascii ''16094592000x0''))"
    using t[where data = "PStr (ascii ''16094592000x0'')",
        THEN conjunct2, THEN conjunct2, THEN conjunct1] g4 by blast
  have w5: "process_data sample_env PNone = Inr PNone"
    using t[where data = PNone, THEN conjunct2, THEN conjunct2, THEN conjunct2] by simp
  show ?thesis using w1 w2 w3 w4 w5 by (intro conjI)
qed

end
